theory Spec2Isabelle
  imports Main "HOL-Library.Word"
begin

section \<open>Common values\<close>

text \<open>
  A JavaScript \<open>Error\<close> carries its message. A promise is pending, resolved with a value
  or rejected with an error.
\<close>

datatype error = Error string

datatype 'a promise = Pending | Resolved 'a | Rejected error

text \<open>
  Code sequenced after \<open>await p\<close> runs only once \<open>p\<close> is resolved, on the resolved
  value; a rejection is propagated and a pending promise leaves the awaiting code suspended.
\<close>

definition await_then :: "'a promise \<Rightarrow> ('a \<Rightarrow> 'b) \<Rightarrow> 'b promise" where
  "await_then p k = (case p of Pending \<Rightarrow> Pending
                     | Resolved v \<Rightarrow> Resolved (k v)
                     | Rejected e \<Rightarrow> Rejected e)"

section \<open>src/util/socket-util.ts: peeking at a socket\<close>

subsection \<open>The readable side of a \<open>net.Socket\<close>\<close>

text \<open>
  A Node \<open>Buffer\<close> is a sequence of unsigned bytes. The readable side of a socket is
  described by the three things \<open>peekFirstByte\<close> depends on:
  \<^item> \<open>flowing\<close>: the stream's mode, \<open>None\<close> for Node's initial \<open>null\<close>,
    \<open>Some True\<close> when flowing and \<open>Some False\<close> when explicitly paused;
  \<^item> \<open>rbuffer\<close>: the chunks held in the stream's internal read buffer, head first;
  \<^item> \<open>incoming\<close>: the chunks the peer delivers from now on until the connection ends,
    in order of arrival (empty for a connection that is closed before any byte arrives).
\<close>

type_synonym buffer = "8 word list"

record socket =
  flowing :: "bool option"
  rbuffer :: "buffer list"
  incoming :: "buffer list"

text \<open>
  The logical stream: every byte a downstream reader of the socket will still see.
\<close>

definition content :: "socket \<Rightarrow> 8 word list" where
  "content s = concat (rbuffer s) @ concat (incoming s)"

text \<open>
  \<open>socket.once('data', cb)\<close> registers a one-shot listener. Adding a \<open>data\<close> listener
  resumes the stream unless it has been paused explicitly.
\<close>

definition once_data :: "socket \<Rightarrow> socket" where
  "once_data s = (if flowing s \<noteq> Some False then s\<lparr>flowing := Some True\<rparr> else s)"

text \<open>
  The next \<open>data\<close> event of the stream, with the socket after the chunk has left it. Only
  a flowing stream emits one: the head of the read buffer when it holds a chunk, else the next
  chunk to arrive. A stream that is paused, or is empty and receives nothing more, emits none.
\<close>

definition next_data :: "socket \<Rightarrow> (buffer \<times> socket) option" where
  "next_data s =
     (if flowing s \<noteq> Some True then None
      else case rbuffer s of
             c # cs \<Rightarrow> Some (c, s\<lparr>rbuffer := cs\<rparr>)
           | [] \<Rightarrow> (case incoming s of
                      c # cs \<Rightarrow> Some (c, s\<lparr>incoming := cs\<rparr>)
                    | [] \<Rightarrow> None))"

definition pause :: "socket \<Rightarrow> socket" where
  "pause s = s\<lparr>flowing := Some False\<rparr>"

text \<open>
  \<open>socket.unshift(chunk)\<close>: an empty chunk is ignored; on a flowing stream whose buffer is
  empty the chunk is emitted as a \<open>data\<close> event at once instead of being stored (the second
  component of the result); otherwise it is put at the front of the read buffer.
\<close>

definition unshift :: "buffer \<Rightarrow> socket \<Rightarrow> socket \<times> buffer option" where
  "unshift chunk s =
     (if length chunk > 0 then
        (if flowing s = Some True \<and> rbuffer s = [] then (s, Some chunk)
         else (s\<lparr>rbuffer := chunk # rbuffer s\<rparr>, None))
      else (s, None))"

text \<open>
  \<open>data[0]\<close> on a buffer: the first byte as a number between 0 and 255, or
  \<open>undefined\<close> (\<open>None\<close>) on an empty buffer.
\<close>

definition index0 :: "buffer \<Rightarrow> int option" where
  "index0 data = (case data of [] \<Rightarrow> None | b # _ \<Rightarrow> Some (uint b))"

subsection \<open>\<open>peekFirstByte\<close> and \<open>mightBeTLSHandshake\<close>\<close>

text \<open>
  \<^verbatim>\<open>
  export async function peekFirstByte(socket: net.Socket): Promise<number> {
      return new Promise<number>((resolve) => {
          socket.once('data', (data) => {
              socket.pause();
              socket.unshift(data);
              resolve(data[0]);
          });
      });
  }
  \<close>
  The result is the state of the returned promise once the socket's first \<open>data\<close> event,
  if there is one, has been handled, together with the socket as the awaiting code finds it.
  The listener is a one-shot listener, so a chunk that \<open>unshift\<close> emits instead of storing
  reaches no listener and is lost. The executor never calls \<open>reject\<close>.
\<close>

definition peekFirstByte :: "socket \<Rightarrow> int option promise \<times> socket" where
  "peekFirstByte socket =
     (let listening = once_data socket in
      case next_data listening of
        None \<Rightarrow> (Pending, listening)
      | Some (data, s1) \<Rightarrow>
          (let s2 = pause s1;
               (s3, lost) = unshift data s2
           in (Resolved (index0 data), s3)))"

text \<open>
  \<^verbatim>\<open>
  export function mightBeTLSHandshake(byte: number) {
      return byte === 22;
  }
  \<close>
  The argument is the number read from a buffer, an integer.
\<close>

definition mightBeTLSHandshake :: "int \<Rightarrow> bool" where
  "mightBeTLSHandshake byte = (byte = 22)"

subsection \<open>Probing a local port\<close>

text \<open>
  The machine the code runs on, as far as the probe can see it:
  \<^item> \<open>networkInterfaces\<close>: the result of \<open>os.networkInterfaces()\<close>, an object from
    interface names to the addresses assigned to each;
  \<^item> \<open>listen_result\<close>: what a fresh \<open>net.Server\<close> emits after \<open>listen(options)\<close>
    with a legal port, either \<open>listening\<close> or \<open>error\<close>.
  A port is a natural number here; negative and fractional numbers are left out.
\<close>

record NetworkInterfaceInfo =
  address :: string
  family :: string
  internal :: bool

record ListenOptions =
  host :: string
  port :: nat
  ipv6Only :: bool

datatype listen_event = Listening | ListenError error

record machine =
  networkInterfaces :: "(string \<times> NetworkInterfaceInfo list) list"
  listen_result :: "ListenOptions \<Rightarrow> listen_event"

text \<open>What the probe does to the network: servers it starts listening and servers it closes.\<close>

datatype net_action = Listen ListenOptions | Close ListenOptions

text \<open>
  \<open>server.listen(options)\<close>: a port that is not below 65536 makes \<open>listen\<close> throw at
  once, before anything is bound; otherwise the server emits its event later.
\<close>

definition server_listen :: "machine \<Rightarrow> ListenOptions \<Rightarrow> error + listen_event" where
  "server_listen m opts =
     (if port opts < 65536 then Inr (listen_result m opts)
      else Inl (Error ''ERR_SOCKET_BAD_PORT''))"

text \<open>
  \<^verbatim>\<open>
  export const isLocalIPv6Available = _.some(os.networkInterfaces(),
      (addresses) => _.some(addresses, a => a.address === '::1')
  );
  \<close>
\<close>

definition isLocalIPv6Available :: "machine \<Rightarrow> bool" where
  "isLocalIPv6Available m =
     list_ex (\<lambda>addresses. list_ex (\<lambda>a. address a = ''::1'') addresses)
       (map snd (networkInterfaces m))"

text \<open>The parameter type \<open>'::1' | '127.0.0.1'\<close> and the string each value stands for.\<close>

datatype interfaceIp = IPv6Loopback | IPv4Loopback

fun ip_literal :: "interfaceIp \<Rightarrow> string" where
  "ip_literal IPv6Loopback = ''::1''"
| "ip_literal IPv4Loopback = ''127.0.0.1''"

text \<open>
  \<^verbatim>\<open>
  export async function isLocalPortActive(interfaceIp: '::1' | '127.0.0.1', port: number) {
      if (interfaceIp === '::1' && !isLocalIPv6Available) return false;

      return new Promise((resolve) => {
          const server = net.createServer();
          server.listen({
              host: interfaceIp,
              port,
              ipv6Only: interfaceIp === '::1'
          });
          server.once('listening', () => {
              resolve(false);
              server.close(() => {});
          });
          server.once('error', (e) => {
              resolve(true);
          });
      });
  }
  \<close>
  The result is the returned promise together with the network actions performed, in order.
  An exception thrown by \<open>listen\<close> inside the executor rejects the promise.
\<close>

definition isLocalPortActive ::
  "machine \<Rightarrow> interfaceIp \<Rightarrow> nat \<Rightarrow> bool promise \<times> net_action list" where
  "isLocalPortActive m interfaceIp p =
     (if ip_literal interfaceIp = ''::1'' \<and> \<not> isLocalIPv6Available m then (Resolved False, [])
      else
        (let opts = \<lparr>host = ip_literal interfaceIp, port = p,
                     ipv6Only = (ip_literal interfaceIp = ''::1'')\<rparr>
         in case server_listen m opts of
              Inl thrown \<Rightarrow> (Rejected thrown, [])
            | Inr Listening \<Rightarrow> (Resolved False, [Listen opts, Close opts])
            | Inr (ListenError e) \<Rightarrow> (Resolved True, [Listen opts])))"

section \<open>The port allocator\<close>

text \<open>
  \<^verbatim>\<open>export type PortRange = { startPort: number, endPort: number };\<close>
\<close>

record PortRange =
  startPort :: nat
  endPort :: nat

text \<open>The argument of \<open>start(port?: number | PortRange)\<close>, when there is one.\<close>

datatype port_param = FixedPort nat | InRange PortRange

text \<open>
  Modelled from the spec: the errors of \<open>start\<close>, whose implementation is not among the
  source files. Section 4.H: \<open>start(n)\<close> fails if \<open>n\<close> is in use, and a scan fails
  with a dedicated error on exhaustion.
\<close>

datatype bind_error = PortInUse nat | NoFreePort nat nat

text \<open>
  Modelled from the spec: the liveness test of a candidate port. The implementation of
  \<open>start\<close> is not among the source files (\<open>mockttp.ts\<close> only declares it); section 4.H of
  the specification says that liveness of a candidate port is tested by transiently binding on
  \<open>127.0.0.1\<close> (and \<open>::1\<close> when an IPv6 loopback interface exists). The test itself is
  \<open>isLocalPortActive\<close> of \<open>socket-util.ts\<close>.
\<close>

definition portFree :: "machine \<Rightarrow> nat \<Rightarrow> bool" where
  "portFree m p =
     (fst (isLocalPortActive m IPv4Loopback p) = Resolved False \<and>
      fst (isLocalPortActive m IPv6Loopback p) = Resolved False)"

text \<open>
  Modelled from the spec: scanning a range, which \<open>start\<close> does in code that is not among
  the source files. Section 4.H: scan \<open>[startPort, endPort)\<close> ascending, first free port
  wins; on exhaustion, fail with a dedicated error.
\<close>

definition scanPorts :: "machine \<Rightarrow> nat \<Rightarrow> nat \<Rightarrow> bind_error + nat" where
  "scanPorts m lo hi =
     (case find (portFree m) [lo..<hi] of
        Some p \<Rightarrow> Inr p
      | None \<Rightarrow> Inl (NoFreePort lo hi))"

text \<open>
  Modelled from the spec: \<open>start\<close>, whose implementation is not among the source files.
  Section 4.H: \<open>start()\<close> with no argument tries the ports in \<open>[8000, 9000)\<close> in ascending
  order; \<open>start(n)\<close> binds to exactly \<open>n\<close> and fails if it is in use;
  \<open>start({startPort, endPort})\<close> scans \<open>[startPort, endPort)\<close>. The result is the port
  the server is bound to. (The comment on \<open>start\<close> in \<open>mockttp.ts\<close> calls the range
  inclusive; the port-selection test only asserts that the port is below \<open>endPort\<close>.)
\<close>

definition start :: "machine \<Rightarrow> port_param option \<Rightarrow> bind_error + nat" where
  "start m portParam =
     (case portParam of
        None \<Rightarrow> scanPorts m 8000 9000
      | Some (FixedPort n) \<Rightarrow> (if portFree m n then Inr n else Inl (PortInUse n))
      | Some (InRange r) \<Rightarrow> scanPorts m (startPort r) (endPort r))"

section \<open>src/mockttp.ts: the abstract instance\<close>

text \<open>
  \<open>Method\<close>, \<open>ProxyConfig\<close>, \<open>CAOptions\<close> and \<open>MockRuleBuilder\<close> are imported from
  modules that are not among the source files. \<open>Method\<close> has the members the class uses,
  \<open>ProxyConfig\<close> the fields of the object literal in \<open>proxyEnv\<close>, \<open>CAOptions\<close> is left
  opaque, and a rule builder is represented by the arguments its constructor is given: the
  method and URL to match (absent for \<open>anyRequest\<close>) and the \<open>addRule\<close> callback.
\<close>

datatype Method = GET | POST | PUT | DELETE | PATCH | HEAD | OPTIONS

datatype url_pattern = UrlString string | UrlRegExp string

datatype 'r MockRuleBuilder = MockRuleBuilder "(Method \<times> url_pattern) option" 'r

record ProxyConfig =
  HTTP_PROXY :: string
  HTTPS_PROXY :: string

typedecl CAOptions

text \<open>
  \<open>MockttpOptions\<close>: every field is optional, \<open>None\<close> is an omitted field.
\<close>

record MockttpOptions =
  cors_option :: "bool option"
  debug_option :: "bool option"
  https :: "CAOptions option"
  standaloneServerUrl :: "string option"

text \<open>
  An instance of \<open>AbstractMockttp\<close>: its two fields and its abstract members, which a
  subclass supplies. \<open>url\<close> is the result of reading the getter: the root URL, or the
  error the getter throws when the server has not been started.
\<close>

record 'r AbstractMockttp =
  cors :: bool
  debug :: bool
  url :: "error + string"
  addRule :: 'r

text \<open>\<open>x || false\<close> on an optional boolean.\<close>

definition or_false :: "bool option \<Rightarrow> bool" where
  "or_false x = (case x of None \<Rightarrow> False | Some b \<Rightarrow> (if b then b else False))"

text \<open>
  \<^verbatim>\<open>
  constructor(options: MockttpOptions) {
      this.debug = options.debug || false;
      this.cors = options.cors || false;
  }
  \<close>
  The two further arguments are the abstract members of the subclass being constructed.
\<close>

definition constructor ::
  "MockttpOptions \<Rightarrow> (error + string) \<Rightarrow> 'r \<Rightarrow> 'r AbstractMockttp" where
  "constructor options url_impl addRule_impl =
     \<lparr>cors = or_false (cors_option options),
      debug = or_false (debug_option options),
      url = url_impl,
      addRule = addRule_impl\<rparr>"

text \<open>
  \<^verbatim>\<open>
  get proxyEnv(): ProxyConfig {
      return {
          HTTP_PROXY: this.url,
          HTTPS_PROXY: this.url
      }
  }
  \<close>
  The getter is read once for each field; an error thrown by it leaves \<open>proxyEnv\<close>.
\<close>

definition proxyEnv :: "'r AbstractMockttp \<Rightarrow> error + ProxyConfig" where
  "proxyEnv this =
     (case url this of
        Inl e \<Rightarrow> Inl e
      | Inr http_proxy \<Rightarrow>
          (case url this of
             Inl e \<Rightarrow> Inl e
           | Inr https_proxy \<Rightarrow> Inr \<lparr>HTTP_PROXY = http_proxy, HTTPS_PROXY = https_proxy\<rparr>))"

text \<open>
  \<^verbatim>\<open>
  urlFor(path: string): string {
      return this.url + path;
  }
  \<close>
\<close>

definition urlFor :: "'r AbstractMockttp \<Rightarrow> string \<Rightarrow> error + string" where
  "urlFor this path = (case url this of Inl e \<Rightarrow> Inl e | Inr u \<Rightarrow> Inr (u @ path))"

text \<open>The rule-builder methods; \<open>get\<close>, \<open>post\<close>, ... differ only in the method passed.\<close>

definition anyRequest :: "'r AbstractMockttp \<Rightarrow> 'r MockRuleBuilder" where
  "anyRequest this = MockRuleBuilder None (addRule this)"

definition method_rule :: "Method \<Rightarrow> 'r AbstractMockttp \<Rightarrow> url_pattern \<Rightarrow> 'r MockRuleBuilder" where
  "method_rule m this u = MockRuleBuilder (Some (m, u)) (addRule this)"

text \<open>
  The message of the error \<open>options\<close> throws, as \<open>stripIndent\<close> leaves it: the first line,
  an empty line, and the advice joined into one line.
\<close>

definition cors_options_message :: string where
  "cors_options_message =
     ''Cannot mock OPTIONS requests with CORS enabled.'' @ [CHR 0x0A, CHR 0x0A] @
     ''You can disable CORS by passing { cors: false } to getLocal/getRemote, but this may cause issues '' @
     ''connecting to your mock server from browsers, unless you mock all required OPTIONS preflight '' @
     ''responses by hand.''"

text \<open>
  \<^verbatim>\<open>
  options(url: string | RegExp): MockRuleBuilder {
      if (this.cors) {
          throw new Error(stripIndent`Cannot mock OPTIONS requests with CORS enabled. ...`);
      }
      return new MockRuleBuilder(Method.OPTIONS, url, this.addRule);
  }
  \<close>
\<close>

definition options :: "'r AbstractMockttp \<Rightarrow> url_pattern \<Rightarrow> error + 'r MockRuleBuilder" where
  "options this u =
     (if cors this then Inl (Error cors_options_message)
      else Inr (MockRuleBuilder (Some (OPTIONS, u)) (addRule this)))"

section \<open>The schema of the remote-control protocol\<close>

text \<open>
  The GraphQL schema of the control channel, as data. A type reference is a named type, a list
  \<open>[t]\<close> or a non-null type \<open>t!\<close>; a field has a name, arguments and a type; a definition
  is an object type, an input type or a scalar.
\<close>

datatype gql_type = Named string | ListOf gql_type | NonNull gql_type

datatype field_def =
  Field (field_name: string) (field_args: "(string \<times> gql_type) list") (field_type: gql_type)

datatype type_kind = ObjectType | InputType | ScalarType

datatype type_def =
  TypeDef (type_kind: type_kind) (type_name: string) (type_fields: "field_def list")

definition schema :: "type_def list" where
  "schema =
    [TypeDef ObjectType ''Query''
       [Field ''mockedEndpoints'' [] (NonNull (ListOf (NonNull (Named ''MockedEndpoint'')))),
        Field ''mockedEndpoint'' [(''id'', NonNull (Named ''ID''))] (Named ''MockedEndpoint'')],
     TypeDef ObjectType ''Mutation''
       [Field ''addRule'' [(''input'', NonNull (Named ''MockRule''))]
          (NonNull (Named ''MockedEndpoint'')),
        Field ''reset'' [] (NonNull (Named ''Boolean''))],
     TypeDef ObjectType ''Subscription''
       [Field ''requestReceived'' [] (NonNull (Named ''Request'')),
        Field ''responseCompleted'' [] (NonNull (Named ''Response'')),
        Field ''requestAborted'' [] (NonNull (Named ''Request'')),
        Field ''failedTlsRequest'' [] (NonNull (Named ''TlsRequest''))],
     TypeDef ObjectType ''MockedEndpoint''
       [Field ''id'' [] (NonNull (Named ''ID'')),
        Field ''seenRequests'' [] (NonNull (ListOf (NonNull (Named ''Request''))))],
     TypeDef InputType ''MockRule''
       [Field ''matchers'' [] (NonNull (ListOf (NonNull (Named ''RequestMatcher'')))),
        Field ''handler'' [] (NonNull (Named ''RequestHandler'')),
        Field ''completionChecker'' [] (Named ''RuleCompletionChecker'')],
     TypeDef ObjectType ''TlsRequest''
       [Field ''failureCause'' [] (NonNull (Named ''String'')),
        Field ''hostname'' [] (Named ''String''),
        Field ''remoteIpAddress'' [] (NonNull (Named ''String''))],
     TypeDef ObjectType ''Request''
       [Field ''id'' [] (NonNull (Named ''ID'')),
        Field ''protocol'' [] (NonNull (Named ''String'')),
        Field ''httpVersion'' [] (NonNull (Named ''String'')),
        Field ''method'' [] (NonNull (Named ''String'')),
        Field ''url'' [] (NonNull (Named ''String'')),
        Field ''path'' [] (NonNull (Named ''String'')),
        Field ''hostname'' [] (NonNull (Named ''String'')),
        Field ''headers'' [] (NonNull (Named ''Json'')),
        Field ''body'' [] (NonNull (Named ''Buffer'')),
        Field ''timingEvents'' [] (NonNull (Named ''Json''))],
     TypeDef ObjectType ''Response''
       [Field ''id'' [] (NonNull (Named ''ID'')),
        Field ''statusCode'' [] (NonNull (Named ''Int'')),
        Field ''statusMessage'' [] (NonNull (Named ''String'')),
        Field ''headers'' [] (NonNull (Named ''Json'')),
        Field ''body'' [] (NonNull (Named ''Buffer'')),
        Field ''timingEvents'' [] (NonNull (Named ''Json''))],
     TypeDef ScalarType ''Any'' [],
     TypeDef ScalarType ''Json'' [],
     TypeDef ScalarType ''Buffer'' [],
     TypeDef ScalarType ''RequestMatcher'' [],
     TypeDef ScalarType ''RequestHandler'' [],
     TypeDef ScalarType ''RuleCompletionChecker'' []]"

definition lookup_type :: "type_def list \<Rightarrow> string \<Rightarrow> type_def option" where
  "lookup_type sch n = find (\<lambda>d. type_name d = n) sch"

definition fields_of :: "type_def list \<Rightarrow> string \<Rightarrow> field_def list" where
  "fields_of sch n = (case lookup_type sch n of None \<Rightarrow> [] | Some d \<Rightarrow> type_fields d)"

definition lookup_field :: "type_def list \<Rightarrow> string \<Rightarrow> string \<Rightarrow> field_def option" where
  "lookup_field sch n f = find (\<lambda>fd. field_name fd = f) (fields_of sch n)"

text \<open>The result type and the arguments of an operation or field.\<close>

definition result_type :: "type_def list \<Rightarrow> string \<Rightarrow> string \<Rightarrow> gql_type option" where
  "result_type sch n f = map_option field_type (lookup_field sch n f)"

definition argument_types ::
  "type_def list \<Rightarrow> string \<Rightarrow> string \<Rightarrow> (string \<times> gql_type) list option" where
  "argument_types sch n f = map_option field_args (lookup_field sch n f)"

text \<open>
  The values that travel over the channel, and when a value is a legal result for a type
  reference: a non-null type admits no \<open>null\<close>, any other type does; a list type admits
  lists of legal elements; a built-in scalar admits its own kind of value (an \<open>ID\<close> is
  serialised as a string); a scalar declared by the schema is opaque and admits any value; an
  object type admits an object with exactly the declared fields, in order, each holding a
  legal value for the field's type. An input type is not the type of a result.
\<close>

datatype gql_value = VNull | VString string | VBoolean bool | VInt int
  | VList "gql_value list" | VObject "(string \<times> gql_value) list"

fun builtin_scalar :: "string \<Rightarrow> gql_value \<Rightarrow> bool" where
  "builtin_scalar n (VString x) = (n = ''String'' \<or> n = ''ID'')"
| "builtin_scalar n (VBoolean b) = (n = ''Boolean'')"
| "builtin_scalar n (VInt i) = (n = ''Int'')"
| "builtin_scalar n v = False"

function conforms :: "type_def list \<Rightarrow> gql_type \<Rightarrow> gql_value \<Rightarrow> bool" where
  "conforms sch (NonNull t) v = (v \<noteq> VNull \<and> conforms sch t v)"
| "conforms sch (ListOf t) v =
     (case v of
        VNull \<Rightarrow> True
      | VList vs \<Rightarrow> list_all (conforms sch t) vs
      | _ \<Rightarrow> False)"
| "conforms sch (Named n) v =
     (if v = VNull then True
      else case lookup_type sch n of
             None \<Rightarrow> builtin_scalar n v
           | Some d \<Rightarrow>
               (if type_kind d = ScalarType then True
                else if type_kind d = InputType then False
                else case v of
                       VObject fs \<Rightarrow>
                         map fst fs = map field_name (type_fields d) \<and>
                         list_all (\<lambda>(fd, x). conforms sch (field_type fd) x)
                           (zip (type_fields d) (map snd fs))
                     | _ \<Rightarrow> False))"
  by pat_completeness auto
termination
proof -
  have elem_size: "size x < size (VList vs)" if "x \<in> set vs" for x vs
    using that by (induction vs) auto
  have field_size: "size y < size (VObject gs)" if "(k, y) \<in> set gs" for k y gs
    using that by (induction gs) auto
  have zip_size: "size y < size (VObject gs)" if "(fd, y) \<in> set (zip fds (map snd gs))"
    for fd :: field_def and y gs fds
  proof -
    from that have "y \<in> snd ` set gs" by (auto dest: set_zip_rightD)
    then obtain k where "(k, y) \<in> set gs" by auto
    then show ?thesis by (rule field_size)
  qed
  show ?thesis
    by (relation "measures [\<lambda>(sch, t, v). size v, \<lambda>(sch, t, v). size t]")
       (auto dest: elem_size zip_size)
qed

text \<open>
  When a value is a legal input for a type reference, as an argument of an operation or a
  field of an input object. A non-null type admits no \<open>null\<close>, any other type does. A list
  type admits lists of legal elements, and a value that is not a list when it is legal for the
  element type (it stands for the list of that one element). A built-in scalar admits its own
  kind of value (an \<open>ID\<close> may be given as a string or as an integer); a scalar declared by
  the schema is opaque and admits any value. An input type admits an object, in any order of
  its keys, in which no key occurs twice, every key is a declared field holding a legal value
  for the field's type, and every field of non-null type is present; a field of nullable type
  may be left out. An object type is not the type of an input.
\<close>

fun input_scalar :: "string \<Rightarrow> gql_value \<Rightarrow> bool" where
  "input_scalar n (VString x) = (n = ''String'' \<or> n = ''ID'')"
| "input_scalar n (VBoolean b) = (n = ''Boolean'')"
| "input_scalar n (VInt i) = (n = ''Int'' \<or> n = ''ID'')"
| "input_scalar n v = False"

fun is_required :: "gql_type \<Rightarrow> bool" where
  "is_required (NonNull t) = True"
| "is_required t = False"

function accepts :: "type_def list \<Rightarrow> gql_type \<Rightarrow> gql_value \<Rightarrow> bool" where
  "accepts sch (NonNull t) v = (v \<noteq> VNull \<and> accepts sch t v)"
| "accepts sch (ListOf t) v =
     (case v of
        VNull \<Rightarrow> True
      | VList vs \<Rightarrow> list_all (accepts sch t) vs
      | _ \<Rightarrow> accepts sch t v)"
| "accepts sch (Named n) v =
     (if v = VNull then True
      else case lookup_type sch n of
             None \<Rightarrow> input_scalar n v
           | Some d \<Rightarrow>
               (if type_kind d = ScalarType then True
                else if type_kind d = ObjectType then False
                else case v of
                       VObject fs \<Rightarrow>
                         distinct (map fst fs) \<and>
                         list_all
                           (\<lambda>(k, x). case find (\<lambda>fd. field_name fd = k) (type_fields d) of
                                       None \<Rightarrow> False
                                     | Some fd \<Rightarrow> accepts sch (field_type fd) x) fs \<and>
                         list_all
                           (\<lambda>fd. is_required (field_type fd) \<longrightarrow>
                                   field_name fd \<in> set (map fst fs))
                           (type_fields d)
                     | _ \<Rightarrow> False))"
  by pat_completeness auto
termination
proof -
  have elem_size: "size x < size (VList vs)" if "x \<in> set vs" for x vs
    using that by (induction vs) auto
  have field_size: "size y < size (VObject gs)" if "(k, y) \<in> set gs" for k y gs
    using that by (induction gs) auto
  show ?thesis
    by (relation "measures [\<lambda>(sch, t, v). size v, \<lambda>(sch, t, v). size t]")
       (auto dest: elem_size field_size)
qed

section \<open>Example inputs\<close>

text \<open>
  A fresh connection on which a TLS client sends the start of a handshake record in one chunk
  and more afterwards; a fresh connection carrying the start of an HTTP request; and a
  connection that is closed before any byte arrives.
\<close>

definition tls_socket :: socket where
  "tls_socket = \<lparr>flowing = None, rbuffer = [], incoming = [[0x16, 0x03, 0x01], [0x02, 0x00]]\<rparr>"

definition http_socket :: socket where
  "http_socket = \<lparr>flowing = None, rbuffer = [], incoming = [[0x47, 0x45, 0x54, 0x20]]\<rparr>"

definition closed_socket :: socket where
  "closed_socket = \<lparr>flowing = None, rbuffer = [], incoming = []\<rparr>"

text \<open>
  An instance of a subclass with no state of its own, constructed with the given \<open>cors\<close>
  option and started on port 8000.
\<close>

definition started_instance :: "bool option \<Rightarrow> unit AbstractMockttp" where
  "started_instance c =
     constructor
       \<lparr>cors_option = c, debug_option = None, https = None, standaloneServerUrl = None\<rparr>
       (Inr ''http://localhost:8000'') ()"

text \<open>
  Two machines on which the ports 8000 and 8001 are in use and every other port is free: one
  with an IPv4 loopback address only, one with the IPv6 loopback address as well.
\<close>

definition busy_below_8002 :: "ListenOptions \<Rightarrow> listen_event" where
  "busy_below_8002 opts =
     (if port opts = 8000 \<or> port opts = 8001 then ListenError (Error ''EADDRINUSE'')
      else Listening)"

definition ipv4_machine :: machine where
  "ipv4_machine =
     \<lparr>networkInterfaces =
        [(''lo'', [\<lparr>address = ''127.0.0.1'', family = ''IPv4'', internal = True\<rparr>])],
      listen_result = busy_below_8002\<rparr>"

definition dual_machine :: machine where
  "dual_machine =
     \<lparr>networkInterfaces =
        [(''lo'', [\<lparr>address = ''127.0.0.1'', family = ''IPv4'', internal = True\<rparr>,
                   \<lparr>address = ''::1'', family = ''IPv6'', internal = True\<rparr>])],
      listen_result = busy_below_8002\<rparr>"

text \<open>A machine with an IPv4 loopback address only, on which every port is in use.\<close>

definition full_machine :: machine where
  "full_machine =
     \<lparr>networkInterfaces =
        [(''lo'', [\<lparr>address = ''127.0.0.1'', family = ''IPv4'', internal = True\<rparr>])],
      listen_result = (\<lambda>opts. ListenError (Error ''EADDRINUSE''))\<rparr>"

text \<open>An emitted \<open>TlsRequest\<close> record without and with a host name.\<close>

definition tls_failure_without_sni :: gql_value where
  "tls_failure_without_sni =
     VObject [(''failureCause'', VString ''closed''), (''hostname'', VNull),
              (''remoteIpAddress'', VString ''127.0.0.1'')]"

definition tls_failure_with_sni :: gql_value where
  "tls_failure_with_sni =
     VObject [(''failureCause'', VString ''cert-rejected''), (''hostname'', VString ''example.com''),
              (''remoteIpAddress'', VString ''127.0.0.1'')]"

text \<open>
  A result of \<open>mockedEndpoints\<close> with two handles, the second of which has seen one
  request; a response record; and inputs for \<open>addRule\<close>: one with a matcher, a handler and
  a \<open>null\<close> completion checker, one that gives the handler first and leaves the completion
  checker out, and one that lacks the handler.
\<close>

definition example_request :: gql_value where
  "example_request =
     VObject [(''id'', VString ''r1''), (''protocol'', VString ''http''),
              (''httpVersion'', VString ''1.1''), (''method'', VString ''GET''),
              (''url'', VString ''http://localhost:8000/foo''), (''path'', VString ''/foo''),
              (''hostname'', VString ''localhost''), (''headers'', VObject []),
              (''body'', VString ''''), (''timingEvents'', VObject [])]"

definition example_endpoints :: gql_value where
  "example_endpoints =
     VList [VObject [(''id'', VString ''e1''), (''seenRequests'', VList [])],
            VObject [(''id'', VString ''e2''), (''seenRequests'', VList [example_request])]]"

definition example_rule :: gql_value where
  "example_rule =
     VObject [(''matchers'', VList [VObject [(''type'', VString ''simple-path'')]]),
              (''handler'', VObject [(''type'', VString ''simple'')]),
              (''completionChecker'', VNull)]"

definition example_rule_without_checker :: gql_value where
  "example_rule_without_checker =
     VObject [(''handler'', VObject [(''type'', VString ''simple'')]),
              (''matchers'', VList [VObject [(''type'', VString ''simple-path'')]])]"

definition example_rule_without_handler :: gql_value where
  "example_rule_without_handler =
     VObject [(''matchers'', VList [VObject [(''type'', VString ''simple-path'')]]),
              (''completionChecker'', VNull)]"

definition example_response :: gql_value where
  "example_response =
     VObject [(''id'', VString ''r1''), (''statusCode'', VInt 200),
              (''statusMessage'', VString ''OK''), (''headers'', VObject []),
              (''body'', VString ''hello''), (''timingEvents'', VObject [])]"

section \<open>Properties of the socket utilities\<close>

lemma next_data_content:
  assumes "next_data s = Some (d, s1)"
  shows "content s = d @ content s1" and "flowing s1 = flowing s"
  using assms
  by (auto simp: next_data_def content_def split: if_splits list.splits)

lemma once_data_content: "content (once_data s) = content s"
  by (simp add: once_data_def content_def)

lemma peekFirstByte_emitted:
  assumes "next_data (once_data s) = Some (d, s1)"
  shows "peekFirstByte s =
           (Resolved (index0 d),
            if d = [] then pause s1 else (pause s1)\<lparr>rbuffer := d # rbuffer s1\<rparr>)"
  using assms by (simp add: peekFirstByte_def unshift_def pause_def)

lemma peekFirstByte_content:
  assumes "next_data (once_data s) = Some (d, s1)"
  shows "content (snd (peekFirstByte s)) = content s"
proof -
  have "content s = d @ content s1"
    using next_data_content(1) [OF assms] by (simp add: once_data_content)
  moreover have "content (snd (peekFirstByte s)) = d @ content s1"
    by (simp add: peekFirstByte_emitted [OF assms] content_def pause_def)
  ultimately show ?thesis by simp
qed

text \<open>
  C1. The connection is treated as TLS exactly when its first byte is \<open>0x16\<close>:
  \<open>mightBeTLSHandshake\<close> is true of the number 22 and of nothing else, hence of a byte
  exactly when the byte is \<open>0x16\<close>; and for a socket whose first \<open>data\<close> chunk is not
  empty, the number \<open>peekFirstByte\<close> resolves with is the first byte of the socket's logical
  stream, so that \<open>mightBeTLSHandshake\<close> holds of it exactly when that byte is \<open>0x16\<close>.
\<close>

theorem mightBeTLSHandshake_iff_0x16:
  "(mightBeTLSHandshake n \<longleftrightarrow> n = 22) \<and>
   (mightBeTLSHandshake (uint (b :: 8 word)) \<longleftrightarrow> b = 0x16) \<and>
   (next_data (once_data s) = Some (d, t) \<and> d \<noteq> [] \<longrightarrow>
      (\<exists>b0 rest s'. content s = b0 # rest \<and>
         peekFirstByte s = (Resolved (Some (uint b0)), s') \<and>
         (mightBeTLSHandshake (uint b0) \<longleftrightarrow> b0 = 0x16)))"
proof -
  have byte: "mightBeTLSHandshake (uint c) \<longleftrightarrow> c = 0x16" for c :: "8 word"
  proof -
    have "uint c = 22 \<longleftrightarrow> c = 22"
      by (simp add: word_uint_eq_iff)
    then show ?thesis by (simp add: mightBeTLSHandshake_def)
  qed
  have peek: "\<exists>b0 rest s'. content s = b0 # rest \<and>
         peekFirstByte s = (Resolved (Some (uint b0)), s') \<and>
         (mightBeTLSHandshake (uint b0) \<longleftrightarrow> b0 = 0x16)"
    if emitted: "next_data (once_data s) = Some (d, t)" and nonempty: "d \<noteq> []"
  proof -
    from nonempty obtain b0 ds where d: "d = b0 # ds" by (cases d) auto
    have "content s = d @ content t"
      using next_data_content(1) [OF emitted] by (simp add: once_data_content)
    then have "content s = b0 # (ds @ content t)" by (simp add: d)
    moreover have "fst (peekFirstByte s) = Resolved (Some (uint b0))"
      by (simp add: peekFirstByte_emitted [OF emitted] index0_def d)
    ultimately show ?thesis using byte by (metis prod.collapse)
  qed
  show ?thesis using byte peek by (simp add: mightBeTLSHandshake_def)
qed

theorem mightBeTLSHandshake_iff_0x16_witness:
  "fst (peekFirstByte tls_socket) = Resolved (Some 22) \<and> mightBeTLSHandshake 22 \<and>
   fst (peekFirstByte http_socket) = Resolved (Some 71) \<and> \<not> mightBeTLSHandshake 71"
proof -
  have tls: "next_data (once_data tls_socket) =
      Some ([0x16, 0x03, 0x01], tls_socket\<lparr>flowing := Some True, incoming := [[0x02, 0x00]]\<rparr>) \<and>
      [0x16, 0x03, 0x01] \<noteq> ([] :: buffer)"
    by (simp add: tls_socket_def once_data_def next_data_def)
  have http: "next_data (once_data http_socket) =
      Some ([0x47, 0x45, 0x54, 0x20], http_socket\<lparr>flowing := Some True, incoming := []\<rparr>) \<and>
      [0x47, 0x45, 0x54, 0x20] \<noteq> ([] :: buffer)"
    by (simp add: http_socket_def once_data_def next_data_def)
  have c_tls: "content tls_socket = [0x16, 0x03, 0x01, 0x02, 0x00]"
    by (simp add: content_def tls_socket_def)
  have c_http: "content http_socket = [0x47, 0x45, 0x54, 0x20]"
    by (simp add: content_def http_socket_def)
  from mightBeTLSHandshake_iff_0x16 [where n = 22 and b = "0x16" and s = tls_socket
      and d = "[0x16, 0x03, 0x01]"
      and t = "tls_socket\<lparr>flowing := Some True, incoming := [[0x02, 0x00]]\<rparr>"] tls c_tls
  have 1: "fst (peekFirstByte tls_socket) = Resolved (Some 22) \<and> mightBeTLSHandshake 22"
    by auto
  from mightBeTLSHandshake_iff_0x16 [where n = 71 and b = "0x47" and s = http_socket
      and d = "[0x47, 0x45, 0x54, 0x20]"
      and t = "http_socket\<lparr>flowing := Some True, incoming := []\<rparr>"] http c_http
  have 2: "fst (peekFirstByte http_socket) = Resolved (Some 71) \<and> \<not> mightBeTLSHandshake 71"
    by auto
  from 1 2 show ?thesis by simp
qed

text \<open>
  C2. For a socket whose first \<open>data\<close> chunk \<open>d\<close> is not empty, \<open>peekFirstByte\<close>
  resolves with the first byte of \<open>d\<close>, and the socket it hands on is paused and has the
  whole of \<open>d\<close> back at the head of its read buffer, in front of everything that followed
  \<open>d\<close>: the logical stream is the one the socket had before the peek.
\<close>

theorem peekFirstByte_reinjects_chunk:
  assumes "next_data (once_data s) = Some (d, t)" and "d \<noteq> []"
  shows "\<exists>s'. peekFirstByte s = (Resolved (Some (uint (hd d))), s') \<and>
              rbuffer s' = d # rbuffer t \<and> incoming s' = incoming t \<and>
              flowing s' = Some False \<and> content s' = content s"
proof -
  let ?s' = "(pause t)\<lparr>rbuffer := d # rbuffer t\<rparr>"
  from assms(2) obtain b ds where d: "d = b # ds" by (cases d) auto
  have result: "peekFirstByte s = (Resolved (Some (uint (hd d))), ?s')"
    using assms(2) by (simp add: peekFirstByte_emitted [OF assms(1)] index0_def d)
  have "content (snd (peekFirstByte s)) = content s"
    by (rule peekFirstByte_content [OF assms(1)])
  then have "content ?s' = content s" by (simp add: result)
  moreover have "rbuffer ?s' = d # rbuffer t" "incoming ?s' = incoming t"
    "flowing ?s' = Some False"
    by (simp_all add: pause_def)
  ultimately show ?thesis using result by blast
qed

theorem peekFirstByte_reinjects_chunk_witness:
  "peekFirstByte tls_socket =
     (Resolved (Some 22),
      \<lparr>flowing = Some False, rbuffer = [[0x16, 0x03, 0x01]], incoming = [[0x02, 0x00]]\<rparr>) \<and>
   content (snd (peekFirstByte tls_socket)) = [0x16, 0x03, 0x01, 0x02, 0x00] \<and>
   content tls_socket = [0x16, 0x03, 0x01, 0x02, 0x00]"
proof -
  have emitted: "next_data (once_data tls_socket) =
      Some ([0x16, 0x03, 0x01], \<lparr>flowing = Some True, rbuffer = [], incoming = [[0x02, 0x00]]\<rparr>)"
    by (simp add: tls_socket_def once_data_def next_data_def)
  have nonempty: "[0x16, 0x03, 0x01] \<noteq> ([] :: buffer)" by simp
  have c: "content tls_socket = [0x16, 0x03, 0x01, 0x02, 0x00]"
    by (simp add: content_def tls_socket_def)
  from peekFirstByte_reinjects_chunk [OF emitted nonempty] obtain s' where
    s': "peekFirstByte tls_socket = (Resolved (Some 22), s')"
      "rbuffer s' = [[0x16, 0x03, 0x01]]" "incoming s' = [[0x02, 0x00]]"
      "flowing s' = Some False" "content s' = content tls_socket"
    by auto
  then have "s' = \<lparr>flowing = Some False, rbuffer = [[0x16, 0x03, 0x01]], incoming = [[0x02, 0x00]]\<rparr>"
    by (cases s') simp
  with s' c show ?thesis by simp
qed

text \<open>
  C3. A connection that is closed before any byte arrives emits no \<open>data\<close> event. On a
  socket that emits no \<open>data\<close> event the promise of \<open>peekFirstByte\<close> stays pending, the
  stream is left as it was, and nothing sequenced after an \<open>await\<close> of the promise ever
  runs, whatever it is (the TLS path, the HTTP path, the emission of an event). On no socket
  at all is the promise rejected.
\<close>

theorem peekFirstByte_pending_without_data:
  "(rbuffer s = [] \<and> incoming s = [] \<longrightarrow> next_data (once_data s) = None) \<and>
   (next_data (once_data s) = None \<longrightarrow>
      fst (peekFirstByte s) = Pending \<and>
      content (snd (peekFirstByte s)) = content s \<and>
      await_then (fst (peekFirstByte s)) k = Pending) \<and>
   fst (peekFirstByte s) \<noteq> Rejected e"
proof -
  have closed: "next_data (once_data s) = None" if "rbuffer s = []" "incoming s = []"
    using that by (simp add: next_data_def once_data_def)
  have pending: "peekFirstByte s = (Pending, once_data s)"
    if "next_data (once_data s) = None"
    using that by (simp add: peekFirstByte_def)
  have never_rejected: "fst (peekFirstByte s) \<noteq> Rejected e"
    by (cases "next_data (once_data s)")
       (auto simp: peekFirstByte_def Let_def split: prod.splits)
  show ?thesis
    using closed pending never_rejected
    by (auto simp: await_then_def once_data_content)
qed

theorem peekFirstByte_pending_without_data_witness:
  "rbuffer closed_socket = [] \<and> incoming closed_socket = [] \<and>
   next_data (once_data closed_socket) = None \<and>
   fst (peekFirstByte closed_socket) = Pending \<and>
   await_then (fst (peekFirstByte closed_socket)) (\<lambda>v. v = Some (22::int)) = Pending"
proof -
  have "rbuffer closed_socket = [] \<and> incoming closed_socket = []"
    by (simp add: closed_socket_def)
  with peekFirstByte_pending_without_data [where s = closed_socket
      and k = "\<lambda>v. v = Some (22::int)" and e = "Error []"]
  show ?thesis by auto
qed

section \<open>Properties of the abstract instance\<close>

text \<open>
  C4. An \<open>OPTIONS\<close> rule cannot be registered while CORS is enabled: on an instance whose
  \<open>cors\<close> field is true, \<open>options(url)\<close> throws the error and gives no builder; on an
  instance whose \<open>cors\<close> field is false it returns the builder for \<open>OPTIONS\<close> and the
  URL. The field is true exactly for an instance constructed with the option \<open>cors: true\<close>.
\<close>

theorem options_throws_iff_cors:
  "(cors this \<longrightarrow> options this u = Inl (Error cors_options_message)) \<and>
   (\<not> cors this \<longrightarrow>
      options this u = Inr (MockRuleBuilder (Some (OPTIONS, u)) (addRule this))) \<and>
   (cors (constructor opts url_impl addRule_impl) \<longleftrightarrow> cors_option opts = Some True)"
proof -
  have "or_false x \<longleftrightarrow> x = Some True" for x
    by (cases x) (auto simp: or_false_def)
  then show ?thesis by (simp add: options_def constructor_def)
qed

theorem options_throws_iff_cors_witness:
  "cors (started_instance (Some True)) \<and>
   options (started_instance (Some True)) (UrlString ''/'') = Inl (Error cors_options_message) \<and>
   \<not> cors (started_instance (Some False)) \<and>
   options (started_instance (Some False)) (UrlString ''/'') =
     Inr (MockRuleBuilder (Some (OPTIONS, UrlString ''/'')) ()) \<and>
   \<not> cors (started_instance None) \<and>
   options (started_instance None) (UrlString ''/'') =
     Inr (MockRuleBuilder (Some (OPTIONS, UrlString ''/'')) ())"
proof -
  have fields: "cors (started_instance (Some True))" "\<not> cors (started_instance (Some False))"
    "\<not> cors (started_instance None)"
    by (simp_all add: started_instance_def constructor_def or_false_def)
  have add: "addRule (started_instance c) = ()" for c by simp
  let ?opts = "\<lparr>cors_option = Some True, debug_option = None, https = None,
                standaloneServerUrl = None\<rparr>"
  note inst = options_throws_iff_cors [where u = "UrlString ''/''" and opts = ?opts
      and url_impl = "Inr ''http://localhost:8000''" and addRule_impl = "()"]
  from fields add inst [where this = "started_instance (Some True)"]
    inst [where this = "started_instance (Some False)"]
    inst [where this = "started_instance None"]
  show ?thesis by simp
qed

text \<open>
  C7. On a started instance, one whose \<open>url\<close> getter returns the root URL, \<open>proxyEnv\<close> is
  the record with that URL in \<open>HTTP_PROXY\<close> and in \<open>HTTPS_PROXY\<close>.
\<close>

theorem proxyEnv_holds_url_twice:
  assumes "url this = Inr u"
  shows "proxyEnv this = Inr \<lparr>HTTP_PROXY = u, HTTPS_PROXY = u\<rparr> \<and>
         (\<exists>env. proxyEnv this = Inr env \<and> HTTP_PROXY env = HTTPS_PROXY env)"
  using assms by (simp add: proxyEnv_def)

theorem proxyEnv_holds_url_twice_witness:
  "url (started_instance None) = Inr ''http://localhost:8000'' \<and>
   proxyEnv (started_instance None) =
     Inr \<lparr>HTTP_PROXY = ''http://localhost:8000'', HTTPS_PROXY = ''http://localhost:8000''\<rparr>"
proof -
  have started: "url (started_instance None) = Inr ''http://localhost:8000''"
    by (simp add: started_instance_def constructor_def)
  from proxyEnv_holds_url_twice [OF started] started show ?thesis by simp
qed

text \<open>
  C10. On a started instance \<open>urlFor(path)\<close> is the root URL followed by the path as it
  is, nothing in between and nothing changed: its length is the sum of the two lengths, the
  empty path gives the root URL, and a path with no leading slash follows the URL directly.
\<close>

theorem urlFor_appends_path:
  assumes "url this = Inr u"
  shows "urlFor this p = Inr (u @ p) \<and> urlFor this [] = Inr u \<and>
         (\<exists>r. urlFor this p = Inr r \<and> length r = length u + length p \<and>
               take (length u) r = u \<and> drop (length u) r = p)"
  using assms by (simp add: urlFor_def)

theorem urlFor_appends_path_witness:
  "url (started_instance None) = Inr ''http://localhost:8000'' \<and>
   urlFor (started_instance None) ''mocked-path'' = Inr ''http://localhost:8000mocked-path'' \<and>
   urlFor (started_instance None) '''' = Inr ''http://localhost:8000''"
proof -
  have started: "url (started_instance None) = Inr ''http://localhost:8000''"
    by (simp add: started_instance_def constructor_def)
  from urlFor_appends_path [OF started, of "''mocked-path''"] started show ?thesis by simp
qed

section \<open>Properties of the port probe and the port allocator\<close>

lemma isLocalPortActive_skipped:
  assumes "ip = IPv6Loopback" and "\<not> isLocalIPv6Available m"
  shows "isLocalPortActive m ip p = (Resolved False, [])"
  using assms by (simp add: isLocalPortActive_def)

lemma isLocalPortActive_bound:
  assumes "ip = IPv4Loopback \<or> isLocalIPv6Available m" and "p < 65536"
  shows "isLocalPortActive m ip p =
           (let opts = \<lparr>host = ip_literal ip, port = p, ipv6Only = (ip = IPv6Loopback)\<rparr>
            in case listen_result m opts of
                 Listening \<Rightarrow> (Resolved False, [Listen opts, Close opts])
               | ListenError e \<Rightarrow> (Resolved True, [Listen opts]))"
  using assms by (cases ip) (auto simp: isLocalPortActive_def server_listen_def Let_def)

lemma isLocalPortActive_bad_port:
  assumes "ip = IPv4Loopback \<or> isLocalIPv6Available m" and "\<not> p < 65536"
  shows "isLocalPortActive m ip p = (Rejected (Error ''ERR_SOCKET_BAD_PORT''), [])"
  using assms by (cases ip) (auto simp: isLocalPortActive_def server_listen_def Let_def)

text \<open>
  C5. \<open>isLocalPortActive(ip, p)\<close> probes the port \<open>p\<close>, a number below 65536, by binding
  a server to it on the given loopback address. When \<open>ip\<close> is \<open>::1\<close> and the machine has
  no IPv6 loopback address, it resolves false and does nothing to the network. Otherwise it
  starts one server listening on \<open>ip\<close> and \<open>p\<close>: if the server comes to listen, the probe
  resolves false and closes the server again; if the server reports an error, the probe
  resolves true. So the probe always resolves, and resolves true exactly when it attempted a
  bind and the bind failed.
\<close>

theorem isLocalPortActive_true_iff_bind_fails:
  "(ip = IPv6Loopback \<and> \<not> isLocalIPv6Available m \<longrightarrow>
      isLocalPortActive m ip p = (Resolved False, [])) \<and>
   (p < 65536 \<longrightarrow>
      ((ip = IPv4Loopback \<or> isLocalIPv6Available m) \<longrightarrow>
         (\<exists>opts. opts = \<lparr>host = ip_literal ip, port = p, ipv6Only = (ip = IPv6Loopback)\<rparr> \<and>
            (listen_result m opts = Listening \<longrightarrow>
               isLocalPortActive m ip p = (Resolved False, [Listen opts, Close opts])) \<and>
            (\<forall>e. listen_result m opts = ListenError e \<longrightarrow>
               isLocalPortActive m ip p = (Resolved True, [Listen opts])))) \<and>
      (fst (isLocalPortActive m ip p) = Resolved True \<longleftrightarrow>
         (\<exists>opts e. Listen opts \<in> set (snd (isLocalPortActive m ip p)) \<and>
            listen_result m opts = ListenError e)) \<and>
      (fst (isLocalPortActive m ip p) = Resolved False \<longleftrightarrow>
         snd (isLocalPortActive m ip p) = [] \<or>
         (\<exists>opts. snd (isLocalPortActive m ip p) = [Listen opts, Close opts] \<and>
            listen_result m opts = Listening)) \<and>
      (\<exists>r. fst (isLocalPortActive m ip p) = Resolved r))"
proof (cases "ip = IPv6Loopback \<and> \<not> isLocalIPv6Available m")
  case True
  then have "isLocalPortActive m ip p = (Resolved False, [])"
    by (simp add: isLocalPortActive_skipped)
  with True show ?thesis by auto
next
  case False
  then have attempt: "ip = IPv4Loopback \<or> isLocalIPv6Available m"
    by (cases ip) auto
  let ?opts = "\<lparr>host = ip_literal ip, port = p, ipv6Only = (ip = IPv6Loopback)\<rparr>"
  show ?thesis
  proof (cases "p < 65536")
    case legal: True
    show ?thesis
    proof (cases "listen_result m ?opts")
      case Listening
      then have "isLocalPortActive m ip p = (Resolved False, [Listen ?opts, Close ?opts])"
        by (simp add: isLocalPortActive_bound [OF attempt legal] Let_def)
      with False Listening show ?thesis by auto
    next
      case (ListenError e)
      then have "isLocalPortActive m ip p = (Resolved True, [Listen ?opts])"
        by (simp add: isLocalPortActive_bound [OF attempt legal] Let_def)
      with False ListenError show ?thesis by auto
    qed
  next
    case illegal: False
    with False show ?thesis by auto
  qed
qed

theorem isLocalPortActive_true_iff_bind_fails_witness:
  "\<not> isLocalIPv6Available ipv4_machine \<and>
   isLocalPortActive ipv4_machine IPv6Loopback 8000 = (Resolved False, []) \<and>
   isLocalPortActive ipv4_machine IPv4Loopback 8000 =
     (Resolved True, [Listen \<lparr>host = ''127.0.0.1'', port = 8000, ipv6Only = False\<rparr>]) \<and>
   isLocalPortActive ipv4_machine IPv4Loopback 8002 =
     (Resolved False, [Listen \<lparr>host = ''127.0.0.1'', port = 8002, ipv6Only = False\<rparr>,
                       Close \<lparr>host = ''127.0.0.1'', port = 8002, ipv6Only = False\<rparr>]) \<and>
   isLocalIPv6Available dual_machine \<and>
   isLocalPortActive dual_machine IPv6Loopback 8001 =
     (Resolved True, [Listen \<lparr>host = ''::1'', port = 8001, ipv6Only = True\<rparr>])"
proof -
  have no6: "\<not> isLocalIPv6Available ipv4_machine"
    by (simp add: isLocalIPv6Available_def ipv4_machine_def)
  have has6: "isLocalIPv6Available dual_machine"
    by (simp add: isLocalIPv6Available_def dual_machine_def)
  have results:
    "listen_result ipv4_machine \<lparr>host = ''127.0.0.1'', port = 8000, ipv6Only = False\<rparr>
       = ListenError (Error ''EADDRINUSE'')"
    "listen_result ipv4_machine \<lparr>host = ''127.0.0.1'', port = 8002, ipv6Only = False\<rparr>
       = Listening"
    "listen_result dual_machine \<lparr>host = ''::1'', port = 8001, ipv6Only = True\<rparr>
       = ListenError (Error ''EADDRINUSE'')"
    by (simp_all add: ipv4_machine_def dual_machine_def busy_below_8002_def)
  have legal: "(8000::nat) < 65536" "(8001::nat) < 65536" "(8002::nat) < 65536"
    by simp_all
  from no6 isLocalPortActive_true_iff_bind_fails
      [where m = ipv4_machine and ip = IPv6Loopback and p = 8000]
  have 1: "isLocalPortActive ipv4_machine IPv6Loopback 8000 = (Resolved False, [])"
    by simp
  from results legal isLocalPortActive_true_iff_bind_fails
      [where m = ipv4_machine and ip = IPv4Loopback and p = 8000]
  have 2: "isLocalPortActive ipv4_machine IPv4Loopback 8000 =
     (Resolved True, [Listen \<lparr>host = ''127.0.0.1'', port = 8000, ipv6Only = False\<rparr>])"
    by simp
  from results legal isLocalPortActive_true_iff_bind_fails
      [where m = ipv4_machine and ip = IPv4Loopback and p = 8002]
  have 3: "isLocalPortActive ipv4_machine IPv4Loopback 8002 =
     (Resolved False, [Listen \<lparr>host = ''127.0.0.1'', port = 8002, ipv6Only = False\<rparr>,
                       Close \<lparr>host = ''127.0.0.1'', port = 8002, ipv6Only = False\<rparr>])"
    by simp
  from results legal has6 isLocalPortActive_true_iff_bind_fails
      [where m = dual_machine and ip = IPv6Loopback and p = 8001]
  have 4: "isLocalPortActive dual_machine IPv6Loopback 8001 =
     (Resolved True, [Listen \<lparr>host = ''::1'', port = 8001, ipv6Only = True\<rparr>])"
    by simp
  from no6 has6 1 2 3 4 show ?thesis by simp
qed

lemma find_upt_Some:
  "find P [lo..<hi] = Some p \<longleftrightarrow>
     lo \<le> p \<and> p < hi \<and> P p \<and> (\<forall>q. lo \<le> q \<and> q < p \<longrightarrow> \<not> P q)"
proof
  assume "find P [lo..<hi] = Some p"
  then obtain i where i: "i < length [lo..<hi]" "P ([lo..<hi] ! i)" "p = [lo..<hi] ! i"
    "\<forall>j<i. \<not> P ([lo..<hi] ! j)"
    unfolding find_Some_iff by blast
  from i(1,3) have p: "p = lo + i" "lo + i < hi" by simp_all
  have "\<not> P q" if "lo \<le> q" "q < p" for q
  proof -
    from that p have "q - lo < i" and "lo + (q - lo) < hi" by arith+
    with i(4) have "\<not> P ([lo..<hi] ! (q - lo))" by blast
    then show ?thesis using that \<open>lo + (q - lo) < hi\<close> by simp
  qed
  with i(2) p show "lo \<le> p \<and> p < hi \<and> P p \<and> (\<forall>q. lo \<le> q \<and> q < p \<longrightarrow> \<not> P q)"
    by simp
next
  assume r: "lo \<le> p \<and> p < hi \<and> P p \<and> (\<forall>q. lo \<le> q \<and> q < p \<longrightarrow> \<not> P q)"
  then have "p - lo < length [lo..<hi]" "[lo..<hi] ! (p - lo) = p" by auto
  moreover have "\<forall>j<p - lo. \<not> P ([lo..<hi] ! j)"
  proof (intro allI impI)
    fix j assume "j < p - lo"
    with r have "lo + j < hi" "lo \<le> lo + j" "lo + j < p" by arith+
    with r show "\<not> P ([lo..<hi] ! j)" by simp
  qed
  ultimately show "find P [lo..<hi] = Some p"
    unfolding find_Some_iff using r by metis
qed

lemma find_upt_None:
  "find P [lo..<hi] = None \<longleftrightarrow> (\<forall>q. lo \<le> q \<and> q < hi \<longrightarrow> \<not> P q)"
  by (auto simp: find_None_iff)

lemma scanPorts_Inr:
  "scanPorts m lo hi = Inr p \<longleftrightarrow>
     lo \<le> p \<and> p < hi \<and> portFree m p \<and> (\<forall>q. lo \<le> q \<and> q < p \<longrightarrow> \<not> portFree m q)"
proof -
  have "scanPorts m lo hi = Inr p \<longleftrightarrow> find (portFree m) [lo..<hi] = Some p"
    by (simp add: scanPorts_def split: option.splits)
  then show ?thesis by (simp only: find_upt_Some)
qed

lemma scanPorts_Inl:
  "scanPorts m lo hi = Inl e \<longleftrightarrow>
     e = NoFreePort lo hi \<and> (\<forall>q. lo \<le> q \<and> q < hi \<longrightarrow> \<not> portFree m q)"
proof -
  have "scanPorts m lo hi = Inl e \<longleftrightarrow>
          e = NoFreePort lo hi \<and> find (portFree m) [lo..<hi] = None"
    by (auto simp: scanPorts_def split: option.splits)
  then show ?thesis by (simp only: find_upt_None)
qed

lemma portFree_ipv4:
  "portFree m p \<Longrightarrow>
     listen_result m \<lparr>host = ''127.0.0.1'', port = p, ipv6Only = False\<rparr> = Listening"
  by (auto simp: portFree_def isLocalPortActive_def server_listen_def Let_def
      split: listen_event.splits if_splits)

lemma portFree_ipv4_only:
  "\<not> isLocalIPv6Available m \<Longrightarrow> q < 65536 \<Longrightarrow>
     portFree m q \<longleftrightarrow>
       listen_result m \<lparr>host = ''127.0.0.1'', port = q, ipv6Only = False\<rparr> = Listening"
  by (auto simp: portFree_def isLocalPortActive_def server_listen_def Let_def
      split: listen_event.splits)

text \<open>
  C6. \<open>start()\<close> with no argument scans the ports from 8000 up to, and not including,
  9000 in ascending order and binds to the first one that the liveness test finds free. When
  it resolves with port \<open>p\<close>, then \<open>8000 \<le> p < 9000\<close>, a server could be bound to \<open>p\<close>
  on \<open>127.0.0.1\<close>, and the liveness test finds no port of the range below \<open>p\<close> free; on
  a machine without an IPv6 loopback address that is to say that none of them could be bound
  on \<open>127.0.0.1\<close>. It resolves whenever some port of the range is free, and fails with
  the error for an exhausted range otherwise.
\<close>

theorem start_default_first_free_port:
  "(start m None = Inr p \<longrightarrow>
      8000 \<le> p \<and> p < 9000 \<and> portFree m p \<and>
      listen_result m \<lparr>host = ''127.0.0.1'', port = p, ipv6Only = False\<rparr> = Listening \<and>
      (\<forall>q. 8000 \<le> q \<and> q < p \<longrightarrow> \<not> portFree m q) \<and>
      (\<not> isLocalIPv6Available m \<longrightarrow>
         (\<forall>q. 8000 \<le> q \<and> q < p \<longrightarrow>
            listen_result m \<lparr>host = ''127.0.0.1'', port = q, ipv6Only = False\<rparr> \<noteq> Listening))) \<and>
   ((\<exists>q. 8000 \<le> q \<and> q < 9000 \<and> portFree m q) \<longrightarrow> (\<exists>r. start m None = Inr r)) \<and>
   ((\<forall>q. 8000 \<le> q \<and> q < 9000 \<longrightarrow> \<not> portFree m q) \<longrightarrow>
      start m None = Inl (NoFreePort 8000 9000))"
proof -
  have s: "start m None = scanPorts m 8000 9000" by (simp add: start_def)
  have 1: "8000 \<le> p \<and> p < 9000 \<and> portFree m p \<and>
      listen_result m \<lparr>host = ''127.0.0.1'', port = p, ipv6Only = False\<rparr> = Listening \<and>
      (\<forall>q. 8000 \<le> q \<and> q < p \<longrightarrow> \<not> portFree m q) \<and>
      (\<not> isLocalIPv6Available m \<longrightarrow>
         (\<forall>q. 8000 \<le> q \<and> q < p \<longrightarrow>
            listen_result m \<lparr>host = ''127.0.0.1'', port = q, ipv6Only = False\<rparr> \<noteq> Listening))"
    if "start m None = Inr p"
  proof -
    from that have found: "8000 \<le> p" "p < 9000" "portFree m p"
      "\<forall>q. 8000 \<le> q \<and> q < p \<longrightarrow> \<not> portFree m q"
      unfolding s scanPorts_Inr by blast+
    have "listen_result m \<lparr>host = ''127.0.0.1'', port = q, ipv6Only = False\<rparr> \<noteq> Listening"
      if "\<not> isLocalIPv6Available m" "8000 \<le> q" "q < p" for q
    proof -
      from that found(2) have "q < 65536" by simp
      with that found(4) portFree_ipv4_only [of m q] show ?thesis by blast
    qed
    with found portFree_ipv4 [of m p] show ?thesis by blast
  qed
  have 3: "start m None = Inl (NoFreePort 8000 9000)"
    if "\<forall>q. 8000 \<le> q \<and> q < 9000 \<longrightarrow> \<not> portFree m q"
    using that unfolding s scanPorts_Inl by blast
  have 2: "\<exists>r. start m None = Inr r" if "\<exists>q. 8000 \<le> q \<and> q < 9000 \<and> portFree m q"
  proof (cases "start m None")
    case (Inl e)
    then have "\<forall>q. 8000 \<le> q \<and> q < 9000 \<longrightarrow> \<not> portFree m q"
      unfolding s scanPorts_Inl by blast
    with that show ?thesis by blast
  next
    case (Inr r)
    then show ?thesis by blast
  qed
  from 1 2 3 show ?thesis by blast
qed

theorem start_default_first_free_port_witness:
  "start ipv4_machine None = Inr 8002 \<and> (8000::nat) \<le> 8002 \<and> (8002::nat) < 9000 \<and>
   portFree ipv4_machine 8002 \<and> \<not> portFree ipv4_machine 8000 \<and>
   \<not> portFree ipv4_machine 8001 \<and>
   start full_machine None = Inl (NoFreePort 8000 9000)"
proof -
  have free: "portFree ipv4_machine q \<longleftrightarrow> q \<noteq> 8000 \<and> q \<noteq> 8001 \<and> q < 65536" for q
    by (simp add: portFree_def isLocalPortActive_def isLocalIPv6Available_def
        server_listen_def ipv4_machine_def busy_below_8002_def Let_def)
  have "\<forall>q. 8000 \<le> q \<and> q < 8002 \<longrightarrow> \<not> portFree ipv4_machine q"
    unfolding free by arith
  then have "scanPorts ipv4_machine 8000 9000 = Inr 8002"
    unfolding scanPorts_Inr by (simp add: free)
  then have started: "start ipv4_machine None = Inr 8002" by (simp add: start_def)
  from start_default_first_free_port [where m = ipv4_machine and p = 8002] started
  have "portFree ipv4_machine 8002 \<and>
        (\<forall>q. 8000 \<le> q \<and> q < 8002 \<longrightarrow> \<not> portFree ipv4_machine q)"
    by blast
  then have found: "portFree ipv4_machine 8002 \<and> \<not> portFree ipv4_machine 8000 \<and>
             \<not> portFree ipv4_machine 8001"
    by simp
  have "\<not> portFree full_machine q" for q
    by (simp add: portFree_def isLocalPortActive_def isLocalIPv6Available_def
        server_listen_def full_machine_def Let_def)
  with start_default_first_free_port [where m = full_machine and p = 0]
  have "start full_machine None = Inl (NoFreePort 8000 9000)" by blast
  with started found show ?thesis by simp
qed

section \<open>Properties of the remote-control schema\<close>

lemma lookup_builtin:
  "lookup_type schema ''String'' = None" "lookup_type schema ''ID'' = None"
  "lookup_type schema ''Boolean'' = None" "lookup_type schema ''Int'' = None"
  by (simp_all add: lookup_type_def schema_def)

declare conforms.simps [simp del] accepts.simps [simp del]

lemma conforms_String:
  "conforms schema (Named ''String'') v \<longleftrightarrow> v = VNull \<or> (\<exists>x. v = VString x)"
  by (cases v) (simp_all add: conforms.simps(3) lookup_builtin)

lemma conforms_String_required:
  "conforms schema (NonNull (Named ''String'')) v \<longleftrightarrow> (\<exists>x. v = VString x)"
  by (auto simp: conforms.simps(1) conforms_String)

lemma lookup_TlsRequest:
  "lookup_type schema ''TlsRequest'' =
     Some (TypeDef ObjectType ''TlsRequest''
       [Field ''failureCause'' [] (NonNull (Named ''String'')),
        Field ''hostname'' [] (Named ''String''),
        Field ''remoteIpAddress'' [] (NonNull (Named ''String''))])"
  by (simp add: lookup_type_def schema_def)

lemma keys3:
  "map fst fs = [a, b, c] \<longleftrightarrow> (\<exists>x y z. fs = [(a, x), (b, y), (c, z)])"
  by (auto simp: map_eq_Cons_conv)

lemma conforms_TlsRequest:
  "conforms schema (NonNull (Named ''TlsRequest'')) v \<longleftrightarrow>
     (\<exists>cause h ip.
        v = VObject [(''failureCause'', VString cause), (''hostname'', h),
                     (''remoteIpAddress'', VString ip)] \<and>
        (h = VNull \<or> (\<exists>name. h = VString name)))"
proof (cases v)
  case (VObject fs)
  have "conforms schema (NonNull (Named ''TlsRequest'')) (VObject fs) \<longleftrightarrow>
          (\<exists>x y z. fs = [(''failureCause'', x), (''hostname'', y), (''remoteIpAddress'', z)] \<and>
             conforms schema (NonNull (Named ''String'')) x \<and>
             conforms schema (Named ''String'') y \<and>
             conforms schema (NonNull (Named ''String'')) z)"
    by (auto simp: conforms.simps(1) conforms.simps(3) [of _ "''TlsRequest''"]
        lookup_TlsRequest keys3)
  then show ?thesis
    unfolding VObject conforms_String conforms_String_required by auto
qed (simp_all add: conforms.simps(1) conforms.simps(3) [of _ "''TlsRequest''"] lookup_TlsRequest)

text \<open>
  C9. The \<open>failedTlsRequest\<close> subscription emits non-null \<open>TlsRequest\<close> records. In the
  schema the failure cause and the remote IP address are non-null strings and the host name is
  a nullable string. So every emitted record holds a string as its failure cause and a string
  as its remote IP address, and its host name is either a string or absent (\<open>null\<close>); and
  every such record, with or without a host name, is a legal one.
\<close>

theorem TlsRequest_cause_and_ip_required:
  "result_type schema ''Subscription'' ''failedTlsRequest'' = Some (NonNull (Named ''TlsRequest'')) \<and>
   result_type schema ''TlsRequest'' ''failureCause'' = Some (NonNull (Named ''String'')) \<and>
   result_type schema ''TlsRequest'' ''remoteIpAddress'' = Some (NonNull (Named ''String'')) \<and>
   result_type schema ''TlsRequest'' ''hostname'' = Some (Named ''String'') \<and>
   (conforms schema (NonNull (Named ''TlsRequest'')) v \<longleftrightarrow>
      (\<exists>cause h ip.
         v = VObject [(''failureCause'', VString cause), (''hostname'', h),
                      (''remoteIpAddress'', VString ip)] \<and>
         (h = VNull \<or> (\<exists>name. h = VString name))))"
proof -
  have "result_type schema ''Subscription'' ''failedTlsRequest'' = Some (NonNull (Named ''TlsRequest''))"
    by (simp add: result_type_def lookup_field_def fields_of_def lookup_type_def schema_def)
  moreover have
    "result_type schema ''TlsRequest'' ''failureCause'' = Some (NonNull (Named ''String''))"
    "result_type schema ''TlsRequest'' ''remoteIpAddress'' = Some (NonNull (Named ''String''))"
    "result_type schema ''TlsRequest'' ''hostname'' = Some (Named ''String'')"
    by (simp_all add: result_type_def lookup_field_def fields_of_def lookup_TlsRequest)
  ultimately show ?thesis using conforms_TlsRequest [of v] by simp
qed

theorem TlsRequest_cause_and_ip_required_witness:
  "conforms schema (NonNull (Named ''TlsRequest'')) tls_failure_without_sni \<and>
   conforms schema (NonNull (Named ''TlsRequest'')) tls_failure_with_sni \<and>
   \<not> conforms schema (NonNull (Named ''TlsRequest''))
       (VObject [(''failureCause'', VNull), (''hostname'', VString ''example.com''),
                 (''remoteIpAddress'', VString ''127.0.0.1'')]) \<and>
   \<not> conforms schema (NonNull (Named ''TlsRequest''))
       (VObject [(''failureCause'', VString ''closed''), (''hostname'', VNull)])"
  using TlsRequest_cause_and_ip_required [of tls_failure_without_sni]
    TlsRequest_cause_and_ip_required [of tls_failure_with_sni]
    TlsRequest_cause_and_ip_required
      [of "VObject [(''failureCause'', VNull), (''hostname'', VString ''example.com''),
                    (''remoteIpAddress'', VString ''127.0.0.1'')]"]
    TlsRequest_cause_and_ip_required
      [of "VObject [(''failureCause'', VString ''closed''), (''hostname'', VNull)]"]
  by (simp add: tls_failure_without_sni_def tls_failure_with_sni_def)

lemma lookup_scalars:
  "lookup_type schema ''RequestMatcher'' = Some (TypeDef ScalarType ''RequestMatcher'' [])"
  "lookup_type schema ''RequestHandler'' = Some (TypeDef ScalarType ''RequestHandler'' [])"
  "lookup_type schema ''RuleCompletionChecker'' =
     Some (TypeDef ScalarType ''RuleCompletionChecker'' [])"
  by (simp_all add: lookup_type_def schema_def)

lemma lookup_MockedEndpoint:
  "lookup_type schema ''MockedEndpoint'' =
     Some (TypeDef ObjectType ''MockedEndpoint''
       [Field ''id'' [] (NonNull (Named ''ID'')),
        Field ''seenRequests'' [] (NonNull (ListOf (NonNull (Named ''Request''))))])"
  by (simp add: lookup_type_def schema_def)

lemma lookup_MockRule:
  "lookup_type schema ''MockRule'' =
     Some (TypeDef InputType ''MockRule''
       [Field ''matchers'' [] (NonNull (ListOf (NonNull (Named ''RequestMatcher'')))),
        Field ''handler'' [] (NonNull (Named ''RequestHandler'')),
        Field ''completionChecker'' [] (Named ''RuleCompletionChecker'')])"
  by (simp add: lookup_type_def schema_def)

lemma keys2: "map fst fs = [a, b] \<longleftrightarrow> (\<exists>x y. fs = [(a, x), (b, y)])"
  by (auto simp: map_eq_Cons_conv)

lemma conforms_required_list:
  "conforms schema (NonNull (ListOf t)) v \<longleftrightarrow>
     (\<exists>vs. v = VList vs \<and> (\<forall>x \<in> set vs. conforms schema t x))"
  by (cases v) (auto simp: conforms.simps(1,2) list_all_iff)

lemma conforms_ID_required:
  "conforms schema (NonNull (Named ''ID'')) v \<longleftrightarrow> (\<exists>x. v = VString x)"
  by (cases v) (simp_all add: conforms.simps(1,3) lookup_builtin)

lemma conforms_Boolean_required:
  "conforms schema (NonNull (Named ''Boolean'')) v \<longleftrightarrow> (\<exists>b. v = VBoolean b)"
  by (cases v) (simp_all add: conforms.simps(1,3) lookup_builtin)

lemma conforms_MockedEndpoint:
  "conforms schema (NonNull (Named ''MockedEndpoint'')) v \<longleftrightarrow>
     (\<exists>i rs. v = VObject [(''id'', VString i), (''seenRequests'', VList rs)] \<and>
        (\<forall>r \<in> set rs. conforms schema (NonNull (Named ''Request'')) r))"
proof (cases v)
  case (VObject fs)
  have "conforms schema (NonNull (Named ''MockedEndpoint'')) (VObject fs) \<longleftrightarrow>
          (\<exists>x y. fs = [(''id'', x), (''seenRequests'', y)] \<and>
             conforms schema (NonNull (Named ''ID'')) x \<and>
             conforms schema (NonNull (ListOf (NonNull (Named ''Request'')))) y)"
    by (auto simp: conforms.simps(1) [of _ "Named ''MockedEndpoint''"]
        conforms.simps(3) [of _ "''MockedEndpoint''"] lookup_MockedEndpoint keys2)
  then show ?thesis
    unfolding VObject conforms_ID_required conforms_required_list by auto
qed (simp_all add: conforms.simps(1) conforms.simps(3) [of _ "''MockedEndpoint''"]
      lookup_MockedEndpoint)

lemma schema_operations:
  "map field_name (fields_of schema ''Query'') = [''mockedEndpoints'', ''mockedEndpoint'']"
  "map field_name (fields_of schema ''Mutation'') = [''addRule'', ''reset'']"
  "map field_name (fields_of schema ''Subscription'') =
     [''requestReceived'', ''responseCompleted'', ''requestAborted'', ''failedTlsRequest'']"
  by (simp_all add: fields_of_def lookup_type_def schema_def)

lemma schema_queries:
  "result_type schema ''Query'' ''mockedEndpoints'' =
     Some (NonNull (ListOf (NonNull (Named ''MockedEndpoint''))))"
  "argument_types schema ''Query'' ''mockedEndpoints'' = Some []"
  "result_type schema ''Query'' ''mockedEndpoint'' = Some (Named ''MockedEndpoint'')"
  "argument_types schema ''Query'' ''mockedEndpoint'' = Some [(''id'', NonNull (Named ''ID''))]"
  by (simp_all add: result_type_def argument_types_def lookup_field_def fields_of_def
      lookup_type_def schema_def)

lemma schema_mutations:
  "argument_types schema ''Mutation'' ''addRule'' =
     Some [(''input'', NonNull (Named ''MockRule''))]"
  "result_type schema ''Mutation'' ''addRule'' = Some (NonNull (Named ''MockedEndpoint''))"
  "argument_types schema ''Mutation'' ''reset'' = Some []"
  "result_type schema ''Mutation'' ''reset'' = Some (NonNull (Named ''Boolean''))"
  by (simp_all add: result_type_def argument_types_def lookup_field_def fields_of_def
      lookup_type_def schema_def)

lemma schema_subscriptions:
  "result_type schema ''Subscription'' ''requestReceived'' = Some (NonNull (Named ''Request''))"
  "result_type schema ''Subscription'' ''responseCompleted'' = Some (NonNull (Named ''Response''))"
  "result_type schema ''Subscription'' ''requestAborted'' = Some (NonNull (Named ''Request''))"
  "result_type schema ''Subscription'' ''failedTlsRequest'' = Some (NonNull (Named ''TlsRequest''))"
  by (simp_all add: result_type_def lookup_field_def fields_of_def lookup_type_def schema_def)

lemma accepts_opaque:
  "accepts schema (NonNull (Named ''RequestMatcher'')) v \<longleftrightarrow> v \<noteq> VNull"
  "accepts schema (NonNull (Named ''RequestHandler'')) v \<longleftrightarrow> v \<noteq> VNull"
  "accepts schema (Named ''RuleCompletionChecker'') v"
  by (simp_all add: accepts.simps(1,3) lookup_scalars)

lemma accepts_matchers:
  "accepts schema (NonNull (ListOf (NonNull (Named ''RequestMatcher'')))) v \<longleftrightarrow>
     v \<noteq> VNull \<and> (\<forall>xs. v = VList xs \<longrightarrow> VNull \<notin> set xs)"
  by (cases v) (auto simp: accepts.simps lookup_scalars list_all_iff)

lemma MockRule_field:
  "(case find (\<lambda>fd. field_name fd = k)
           [Field ''matchers'' [] (NonNull (ListOf (NonNull (Named ''RequestMatcher'')))),
            Field ''handler'' [] (NonNull (Named ''RequestHandler'')),
            Field ''completionChecker'' [] (Named ''RuleCompletionChecker'')] of
      None \<Rightarrow> False
    | Some fd \<Rightarrow> accepts schema (field_type fd) x) \<longleftrightarrow>
   (k = ''matchers'' \<and> x \<noteq> VNull \<and> (\<forall>xs. x = VList xs \<longrightarrow> VNull \<notin> set xs)) \<or>
   (k = ''handler'' \<and> x \<noteq> VNull) \<or>
   k = ''completionChecker''"
  by (auto simp: accepts_matchers accepts_opaque)

lemma input_object_keys:
  assumes "a \<noteq> b" "a \<noteq> c" "b \<noteq> c"
  shows "distinct (map fst fs) \<and>
         (\<forall>p \<in> set fs. (fst p = a \<and> P (snd p)) \<or> (fst p = b \<and> Q (snd p)) \<or> fst p = c) \<and>
         a \<in> fst ` set fs \<and> b \<in> fst ` set fs \<longleftrightarrow>
         distinct (map fst fs) \<and> set (map fst fs) \<subseteq> {a, b, c} \<and>
         (\<exists>m. map_of fs a = Some m \<and> P m) \<and> (\<exists>h. map_of fs b = Some h \<and> Q h)"
    (is "?L \<longleftrightarrow> ?R")
proof
  assume l: ?L
  then obtain m h where mh: "(a, m) \<in> set fs" "(b, h) \<in> set fs" by auto
  with l assms have "P m" "Q h" by fastforce+
  moreover from l mh have "map_of fs a = Some m" "map_of fs b = Some h"
    by (simp_all add: map_of_eq_Some_iff)
  moreover from l have "set (map fst fs) \<subseteq> {a, b, c}" by auto
  ultimately show ?R using l by blast
next
  assume r: ?R
  then obtain m h where mh: "map_of fs a = Some m" "P m" "map_of fs b = Some h" "Q h"
    by blast
  have "(fst p = a \<and> P (snd p)) \<or> (fst p = b \<and> Q (snd p)) \<or> fst p = c"
    if p: "p \<in> set fs" for p
  proof -
    from p r have "map_of fs (fst p) = Some (snd p)" by (simp add: map_of_eq_Some_iff)
    moreover from p r have "fst p = a \<or> fst p = b \<or> fst p = c" by auto
    ultimately show ?thesis using mh by auto
  qed
  moreover from mh have "a \<in> fst ` set fs" "b \<in> fst ` set fs"
    by (auto dest!: map_of_SomeD intro: rev_image_eqI)
  ultimately show ?L using r by blast
qed

lemma accepts_MockRule:
  "accepts schema (NonNull (Named ''MockRule'')) v \<longleftrightarrow>
     (\<exists>fs. v = VObject fs \<and> distinct (map fst fs) \<and>
        set (map fst fs) \<subseteq> {''matchers'', ''handler'', ''completionChecker''} \<and>
        (\<exists>ms. map_of fs ''matchers'' = Some ms \<and> ms \<noteq> VNull \<and>
              (\<forall>xs. ms = VList xs \<longrightarrow> VNull \<notin> set xs)) \<and>
        (\<exists>h. map_of fs ''handler'' = Some h \<and> h \<noteq> VNull))"
proof (cases v)
  case (VObject fs)
  have "accepts schema (NonNull (Named ''MockRule'')) (VObject fs) \<longleftrightarrow>
      distinct (map fst fs) \<and>
      (\<forall>p \<in> set fs.
         (fst p = ''matchers'' \<and> snd p \<noteq> VNull \<and>
            (\<forall>xs. snd p = VList xs \<longrightarrow> VNull \<notin> set xs)) \<or>
         (fst p = ''handler'' \<and> snd p \<noteq> VNull) \<or> fst p = ''completionChecker'') \<and>
      ''matchers'' \<in> fst ` set fs \<and> ''handler'' \<in> fst ` set fs"
    by (simp add: accepts.simps(1) [of _ "Named ''MockRule''"]
        accepts.simps(3) [of _ "''MockRule''"] lookup_MockRule MockRule_field
        list_all_iff case_prod_unfold del: find.simps)
  also have "\<dots> \<longleftrightarrow>
      distinct (map fst fs) \<and>
      set (map fst fs) \<subseteq> {''matchers'', ''handler'', ''completionChecker''} \<and>
      (\<exists>ms. map_of fs ''matchers'' = Some ms \<and> ms \<noteq> VNull \<and>
            (\<forall>xs. ms = VList xs \<longrightarrow> VNull \<notin> set xs)) \<and>
      (\<exists>h. map_of fs ''handler'' = Some h \<and> h \<noteq> VNull)"
    by (rule input_object_keys
          [where P = "\<lambda>x. x \<noteq> VNull \<and> (\<forall>xs. x = VList xs \<longrightarrow> VNull \<notin> set xs)"
             and Q = "\<lambda>x. x \<noteq> VNull"]) simp_all
  finally show ?thesis by (simp add: VObject)
qed (simp_all add: accepts.simps(1) accepts.simps(3) [of _ "''MockRule''"] lookup_MockRule)
lemma lookup_Request:
  "lookup_type schema ''Request'' =
     Some (TypeDef ObjectType ''Request''
       [Field ''id'' [] (NonNull (Named ''ID'')),
        Field ''protocol'' [] (NonNull (Named ''String'')),
        Field ''httpVersion'' [] (NonNull (Named ''String'')),
        Field ''method'' [] (NonNull (Named ''String'')),
        Field ''url'' [] (NonNull (Named ''String'')),
        Field ''path'' [] (NonNull (Named ''String'')),
        Field ''hostname'' [] (NonNull (Named ''String'')),
        Field ''headers'' [] (NonNull (Named ''Json'')),
        Field ''body'' [] (NonNull (Named ''Buffer'')),
        Field ''timingEvents'' [] (NonNull (Named ''Json''))])"
  by (simp add: lookup_type_def schema_def)

lemma lookup_Response:
  "lookup_type schema ''Response'' =
     Some (TypeDef ObjectType ''Response''
       [Field ''id'' [] (NonNull (Named ''ID'')),
        Field ''statusCode'' [] (NonNull (Named ''Int'')),
        Field ''statusMessage'' [] (NonNull (Named ''String'')),
        Field ''headers'' [] (NonNull (Named ''Json'')),
        Field ''body'' [] (NonNull (Named ''Buffer'')),
        Field ''timingEvents'' [] (NonNull (Named ''Json''))])"
  by (simp add: lookup_type_def schema_def)

lemma lookup_payload_scalars:
  "lookup_type schema ''Json'' = Some (TypeDef ScalarType ''Json'' [])"
  "lookup_type schema ''Buffer'' = Some (TypeDef ScalarType ''Buffer'' [])"
  by (simp_all add: lookup_type_def schema_def)

lemma conforms_payload:
  "conforms schema (NonNull (Named ''Json'')) v \<longleftrightarrow> v \<noteq> VNull"
  "conforms schema (NonNull (Named ''Buffer'')) v \<longleftrightarrow> v \<noteq> VNull"
  by (simp_all add: conforms.simps(1,3) lookup_payload_scalars)

lemma conforms_Int_required:
  "conforms schema (NonNull (Named ''Int'')) v \<longleftrightarrow> (\<exists>n. v = VInt n)"
  by (cases v) (simp_all add: conforms.simps(1,3) lookup_builtin)

lemma keys_Cons:
  "map fst fs = k # ks \<longleftrightarrow> (\<exists>x rest. fs = (k, x) # rest \<and> map fst rest = ks)"
  by (cases fs) auto

lemma conforms_Request:
  "conforms schema (NonNull (Named ''Request'')) v \<longleftrightarrow>
     (\<exists>i pr hv me u pa ho hd bo te.
        v = VObject [(''id'', VString i), (''protocol'', VString pr),
                     (''httpVersion'', VString hv), (''method'', VString me),
                     (''url'', VString u), (''path'', VString pa),
                     (''hostname'', VString ho), (''headers'', hd), (''body'', bo),
                     (''timingEvents'', te)] \<and>
        hd \<noteq> VNull \<and> bo \<noteq> VNull \<and> te \<noteq> VNull)"
proof (cases v)
  case (VObject fs)
  have "conforms schema (NonNull (Named ''Request'')) (VObject fs) \<longleftrightarrow>
          (\<exists>x1 x2 x3 x4 x5 x6 x7 x8 x9 x10.
             fs = [(''id'', x1), (''protocol'', x2), (''httpVersion'', x3), (''method'', x4),
                   (''url'', x5), (''path'', x6), (''hostname'', x7), (''headers'', x8),
                   (''body'', x9), (''timingEvents'', x10)] \<and>
             conforms schema (NonNull (Named ''ID'')) x1 \<and>
             conforms schema (NonNull (Named ''String'')) x2 \<and>
             conforms schema (NonNull (Named ''String'')) x3 \<and>
             conforms schema (NonNull (Named ''String'')) x4 \<and>
             conforms schema (NonNull (Named ''String'')) x5 \<and>
             conforms schema (NonNull (Named ''String'')) x6 \<and>
             conforms schema (NonNull (Named ''String'')) x7 \<and>
             conforms schema (NonNull (Named ''Json'')) x8 \<and>
             conforms schema (NonNull (Named ''Buffer'')) x9 \<and>
             conforms schema (NonNull (Named ''Json'')) x10)"
    by (auto simp: conforms.simps(1) [of _ "Named ''Request''"]
        conforms.simps(3) [of _ "''Request''"] lookup_Request keys_Cons)
  then show ?thesis
    unfolding VObject conforms_ID_required conforms_String_required conforms_payload by auto
qed (simp_all add: conforms.simps(1) conforms.simps(3) [of _ "''Request''"] lookup_Request)

lemma conforms_Response:
  "conforms schema (NonNull (Named ''Response'')) v \<longleftrightarrow>
     (\<exists>i code msg hd bo te.
        v = VObject [(''id'', VString i), (''statusCode'', VInt code),
                     (''statusMessage'', VString msg), (''headers'', hd), (''body'', bo),
                     (''timingEvents'', te)] \<and>
        hd \<noteq> VNull \<and> bo \<noteq> VNull \<and> te \<noteq> VNull)"
proof (cases v)
  case (VObject fs)
  have "conforms schema (NonNull (Named ''Response'')) (VObject fs) \<longleftrightarrow>
          (\<exists>x1 x2 x3 x4 x5 x6.
             fs = [(''id'', x1), (''statusCode'', x2), (''statusMessage'', x3),
                   (''headers'', x4), (''body'', x5), (''timingEvents'', x6)] \<and>
             conforms schema (NonNull (Named ''ID'')) x1 \<and>
             conforms schema (NonNull (Named ''Int'')) x2 \<and>
             conforms schema (NonNull (Named ''String'')) x3 \<and>
             conforms schema (NonNull (Named ''Json'')) x4 \<and>
             conforms schema (NonNull (Named ''Buffer'')) x5 \<and>
             conforms schema (NonNull (Named ''Json'')) x6)"
    by (auto simp: conforms.simps(1) [of _ "Named ''Response''"]
        conforms.simps(3) [of _ "''Response''"] lookup_Response keys_Cons)
  then show ?thesis
    unfolding VObject conforms_ID_required conforms_String_required conforms_Int_required
      conforms_payload by auto
qed (simp_all add: conforms.simps(1) conforms.simps(3) [of _ "''Response''"] lookup_Response)

lemma schema_records:
  "fields_of schema ''Request'' =
     [Field ''id'' [] (NonNull (Named ''ID'')),
      Field ''protocol'' [] (NonNull (Named ''String'')),
      Field ''httpVersion'' [] (NonNull (Named ''String'')),
      Field ''method'' [] (NonNull (Named ''String'')),
      Field ''url'' [] (NonNull (Named ''String'')),
      Field ''path'' [] (NonNull (Named ''String'')),
      Field ''hostname'' [] (NonNull (Named ''String'')),
      Field ''headers'' [] (NonNull (Named ''Json'')),
      Field ''body'' [] (NonNull (Named ''Buffer'')),
      Field ''timingEvents'' [] (NonNull (Named ''Json''))]"
  "fields_of schema ''Response'' =
     [Field ''id'' [] (NonNull (Named ''ID'')),
      Field ''statusCode'' [] (NonNull (Named ''Int'')),
      Field ''statusMessage'' [] (NonNull (Named ''String'')),
      Field ''headers'' [] (NonNull (Named ''Json'')),
      Field ''body'' [] (NonNull (Named ''Buffer'')),
      Field ''timingEvents'' [] (NonNull (Named ''Json''))]"
  "fields_of schema ''TlsRequest'' =
     [Field ''failureCause'' [] (NonNull (Named ''String'')),
      Field ''hostname'' [] (Named ''String''),
      Field ''remoteIpAddress'' [] (NonNull (Named ''String''))]"
  "fields_of schema ''MockedEndpoint'' =
     [Field ''id'' [] (NonNull (Named ''ID'')),
      Field ''seenRequests'' [] (NonNull (ListOf (NonNull (Named ''Request''))))]"
  "fields_of schema ''MockRule'' =
     [Field ''matchers'' [] (NonNull (ListOf (NonNull (Named ''RequestMatcher'')))),
      Field ''handler'' [] (NonNull (Named ''RequestHandler'')),
      Field ''completionChecker'' [] (Named ''RuleCompletionChecker'')]"
  by (simp_all add: fields_of_def lookup_Request lookup_Response lookup_TlsRequest
      lookup_MockedEndpoint lookup_MockRule)
text \<open>
  C8. The schema declares the operations of the specification and no others: the queries
  \<open>mockedEndpoints\<close> and \<open>mockedEndpoint(id)\<close>, the mutations \<open>addRule(input)\<close> and
  \<open>reset\<close>, and the four subscriptions. A result of \<open>mockedEndpoints\<close> is a list, never
  \<open>null\<close>, of handles, each an object holding an id and the list of its seen requests.
  \<open>addRule\<close> takes a \<open>MockRule\<close> and returns a handle. A legal \<open>MockRule\<close> input is an
  object with no other keys than \<open>matchers\<close>, \<open>handler\<close> and \<open>completionChecker\<close>,
  none of them twice, in which \<open>matchers\<close> is present and holds a list of matchers, none
  of them \<open>null\<close> (or one matcher, which stands for the list of it), and \<open>handler\<close> is
  present and not \<open>null\<close>; \<open>completionChecker\<close> may be left out or be \<open>null\<close>. \<open>reset\<close> returns a boolean. The subscriptions emit
  \<open>Request\<close>, \<open>Response\<close>, \<open>Request\<close> and \<open>TlsRequest\<close> records, never \<open>null\<close>,
  whose fields, with their types, are those of the data model.
\<close>

theorem remote_control_schema_operations:
  "map field_name (fields_of schema ''Query'') = [''mockedEndpoints'', ''mockedEndpoint''] \<and>
   map field_name (fields_of schema ''Mutation'') = [''addRule'', ''reset''] \<and>
   map field_name (fields_of schema ''Subscription'') =
     [''requestReceived'', ''responseCompleted'', ''requestAborted'', ''failedTlsRequest''] \<and>
   result_type schema ''Query'' ''mockedEndpoints'' =
     Some (NonNull (ListOf (NonNull (Named ''MockedEndpoint'')))) \<and>
   argument_types schema ''Query'' ''mockedEndpoints'' = Some [] \<and>
   (conforms schema (NonNull (ListOf (NonNull (Named ''MockedEndpoint'')))) endpoints \<longleftrightarrow>
      (\<exists>hs. endpoints = VList hs \<and>
         (\<forall>h \<in> set hs. \<exists>i rs.
            h = VObject [(''id'', VString i), (''seenRequests'', VList rs)] \<and>
            (\<forall>r \<in> set rs. conforms schema (NonNull (Named ''Request'')) r)))) \<and>
   result_type schema ''Query'' ''mockedEndpoint'' = Some (Named ''MockedEndpoint'') \<and>
   argument_types schema ''Query'' ''mockedEndpoint'' = Some [(''id'', NonNull (Named ''ID''))] \<and>
   argument_types schema ''Mutation'' ''addRule'' =
     Some [(''input'', NonNull (Named ''MockRule''))] \<and>
   (accepts schema (NonNull (Named ''MockRule'')) rule \<longleftrightarrow>
      (\<exists>fs. rule = VObject fs \<and> distinct (map fst fs) \<and>
         set (map fst fs) \<subseteq> {''matchers'', ''handler'', ''completionChecker''} \<and>
         (\<exists>ms. map_of fs ''matchers'' = Some ms \<and> ms \<noteq> VNull \<and>
               (\<forall>xs. ms = VList xs \<longrightarrow> VNull \<notin> set xs)) \<and>
         (\<exists>h. map_of fs ''handler'' = Some h \<and> h \<noteq> VNull))) \<and>
   result_type schema ''Mutation'' ''addRule'' = Some (NonNull (Named ''MockedEndpoint'')) \<and>
   argument_types schema ''Mutation'' ''reset'' = Some [] \<and>
   result_type schema ''Mutation'' ''reset'' = Some (NonNull (Named ''Boolean'')) \<and>
   (conforms schema (NonNull (Named ''Boolean'')) ack \<longleftrightarrow> (\<exists>b. ack = VBoolean b)) \<and>
   result_type schema ''Subscription'' ''requestReceived'' = Some (NonNull (Named ''Request'')) \<and>
   result_type schema ''Subscription'' ''responseCompleted'' = Some (NonNull (Named ''Response'')) \<and>
   result_type schema ''Subscription'' ''requestAborted'' = Some (NonNull (Named ''Request'')) \<and>
   result_type schema ''Subscription'' ''failedTlsRequest'' = Some (NonNull (Named ''TlsRequest'')) \<and>
   fields_of schema ''Request'' =
     [Field ''id'' [] (NonNull (Named ''ID'')),
      Field ''protocol'' [] (NonNull (Named ''String'')),
      Field ''httpVersion'' [] (NonNull (Named ''String'')),
      Field ''method'' [] (NonNull (Named ''String'')),
      Field ''url'' [] (NonNull (Named ''String'')),
      Field ''path'' [] (NonNull (Named ''String'')),
      Field ''hostname'' [] (NonNull (Named ''String'')),
      Field ''headers'' [] (NonNull (Named ''Json'')),
      Field ''body'' [] (NonNull (Named ''Buffer'')),
      Field ''timingEvents'' [] (NonNull (Named ''Json''))] \<and>
   fields_of schema ''Response'' =
     [Field ''id'' [] (NonNull (Named ''ID'')),
      Field ''statusCode'' [] (NonNull (Named ''Int'')),
      Field ''statusMessage'' [] (NonNull (Named ''String'')),
      Field ''headers'' [] (NonNull (Named ''Json'')),
      Field ''body'' [] (NonNull (Named ''Buffer'')),
      Field ''timingEvents'' [] (NonNull (Named ''Json''))] \<and>
   fields_of schema ''TlsRequest'' =
     [Field ''failureCause'' [] (NonNull (Named ''String'')),
      Field ''hostname'' [] (Named ''String''),
      Field ''remoteIpAddress'' [] (NonNull (Named ''String''))] \<and>
   fields_of schema ''MockedEndpoint'' =
     [Field ''id'' [] (NonNull (Named ''ID'')),
      Field ''seenRequests'' [] (NonNull (ListOf (NonNull (Named ''Request''))))] \<and>
   fields_of schema ''MockRule'' =
     [Field ''matchers'' [] (NonNull (ListOf (NonNull (Named ''RequestMatcher'')))),
      Field ''handler'' [] (NonNull (Named ''RequestHandler'')),
      Field ''completionChecker'' [] (Named ''RuleCompletionChecker'')] \<and>
   (conforms schema (NonNull (Named ''Request'')) request \<longleftrightarrow>
      (\<exists>i pr hv me u pa ho hd bo te.
         request = VObject [(''id'', VString i), (''protocol'', VString pr),
                      (''httpVersion'', VString hv), (''method'', VString me),
                      (''url'', VString u), (''path'', VString pa),
                      (''hostname'', VString ho), (''headers'', hd), (''body'', bo),
                      (''timingEvents'', te)] \<and>
         hd \<noteq> VNull \<and> bo \<noteq> VNull \<and> te \<noteq> VNull)) \<and>
   (conforms schema (NonNull (Named ''Response'')) response \<longleftrightarrow>
      (\<exists>i code msg hd bo te.
         response = VObject [(''id'', VString i), (''statusCode'', VInt code),
                      (''statusMessage'', VString msg), (''headers'', hd), (''body'', bo),
                      (''timingEvents'', te)] \<and>
         hd \<noteq> VNull \<and> bo \<noteq> VNull \<and> te \<noteq> VNull)) \<and>
   (conforms schema (NonNull (Named ''TlsRequest'')) failure \<longleftrightarrow>
      (\<exists>cause h ip.
         failure = VObject [(''failureCause'', VString cause), (''hostname'', h),
                      (''remoteIpAddress'', VString ip)] \<and>
         (h = VNull \<or> (\<exists>name. h = VString name))))"
proof -
  have handles:
    "conforms schema (NonNull (ListOf (NonNull (Named ''MockedEndpoint'')))) endpoints \<longleftrightarrow>
      (\<exists>hs. endpoints = VList hs \<and>
         (\<forall>h \<in> set hs. \<exists>i rs.
            h = VObject [(''id'', VString i), (''seenRequests'', VList rs)] \<and>
            (\<forall>r \<in> set rs. conforms schema (NonNull (Named ''Request'')) r)))"
    by (simp only: conforms_required_list conforms_MockedEndpoint)
  show ?thesis
    by (intro conjI schema_operations schema_queries schema_mutations schema_subscriptions
        schema_records handles accepts_MockRule conforms_Boolean_required conforms_Request
        conforms_Response conforms_TlsRequest)
qed

theorem remote_control_schema_operations_witness:
  "conforms schema (NonNull (ListOf (NonNull (Named ''MockedEndpoint'')))) example_endpoints \<and>
   \<not> conforms schema (NonNull (ListOf (NonNull (Named ''MockedEndpoint'')))) VNull \<and>
   accepts schema (NonNull (Named ''MockRule'')) example_rule \<and>
   accepts schema (NonNull (Named ''MockRule'')) example_rule_without_checker \<and>
   \<not> accepts schema (NonNull (Named ''MockRule'')) example_rule_without_handler \<and>
   conforms schema (NonNull (Named ''Boolean'')) (VBoolean True) \<and>
   conforms schema (NonNull (Named ''Request'')) example_request \<and>
   conforms schema (NonNull (Named ''Response'')) example_response \<and>
   conforms schema (NonNull (Named ''TlsRequest'')) tls_failure_without_sni"
proof -
  note inst = remote_control_schema_operations
    [where endpoints = example_endpoints and rule = example_rule and ack = "VBoolean True"
       and request = example_request and response = example_response
       and failure = tls_failure_without_sni]
  note inst_other = remote_control_schema_operations
    [where endpoints = VNull and rule = example_rule_without_checker and ack = "VBoolean True"
       and request = example_request and response = example_response
       and failure = tls_failure_without_sni]
  note inst_bad = remote_control_schema_operations
    [where endpoints = VNull and rule = example_rule_without_handler and ack = "VBoolean True"
       and request = example_request and response = example_response
       and failure = tls_failure_without_sni]
  have request: "conforms schema (NonNull (Named ''Request'')) example_request"
    using inst by (auto simp: example_request_def)
  have 1: "conforms schema (NonNull (ListOf (NonNull (Named ''MockedEndpoint'')))) example_endpoints"
    using inst request by (auto simp: example_endpoints_def)
  have 2: "\<not> conforms schema (NonNull (ListOf (NonNull (Named ''MockedEndpoint'')))) VNull"
    using inst_other by auto
  have 3: "accepts schema (NonNull (Named ''MockRule'')) example_rule"
    using inst by (auto simp: example_rule_def)
  have 4: "accepts schema (NonNull (Named ''MockRule'')) example_rule_without_checker"
    using inst_other by (auto simp: example_rule_without_checker_def)
  have 5: "\<not> accepts schema (NonNull (Named ''MockRule'')) example_rule_without_handler"
    using inst_bad by (auto simp: example_rule_without_handler_def)
  have 6: "conforms schema (NonNull (Named ''Boolean'')) (VBoolean True)"
    using inst by auto
  have 7: "conforms schema (NonNull (Named ''Response'')) example_response"
    using inst by (auto simp: example_response_def)
  have 8: "conforms schema (NonNull (Named ''TlsRequest'')) tls_failure_without_sni"
    using inst by (auto simp: tls_failure_without_sni_def)
  from 1 2 3 4 5 6 7 8 request show ?thesis by simp
qed

end
